theory Spec2Isabelle
  imports Complex_Main
begin

section \<open>Data model of the captioning trainer\<close>

text \<open>
  The development embeds \<^verbatim>\<open>training_utils/captioning_model_trainer.py\<close> (class
  \<^verbatim>\<open>Trainer\<close>). Python floats are read as reals (every metric the loop compares is
  a finite CIDEr score), Python integers as \<open>int\<close>, tensors as lists of reals.
  A \<^verbatim>\<open>state_dict\<close> maps parameter names to tensors. The four random generators
  whose states a checkpoint stores are opaque byte strings.
\<close>

type_synonym tensor = "real list"
type_synonym state_dict = "string \<rightharpoonup> tensor"
type_synonym rng_blob = "nat list"
type_synonym path = string

datatype error = ShapeError | FileNotFoundError | TypeError

record rng_states =
  torch_rng :: rng_blob
  cuda_rng :: rng_blob
  numpy_rng :: rng_blob
  random_rng :: rng_blob

text \<open>
  \<^verbatim>\<open>torch.optim.Adam\<close>: the hyper-parameters of its single parameter group and the
  per-parameter state (step count and the two moment estimates), which is empty in a
  freshly constructed optimizer. \<^verbatim>\<open>state_dict()\<close> / \<^verbatim>\<open>load_state_dict()\<close> of an
  optimizer carry exactly these.
\<close>

type_synonym adam_state = "string \<rightharpoonup> (nat \<times> tensor \<times> tensor)"

record optimizer =
  lr :: real
  betas :: "real \<times> real"
  opt_state :: adam_state

definition Adam :: "real \<Rightarrow> real \<times> real \<Rightarrow> optimizer" where
  "Adam l b = \<lparr>lr = l, betas = b, opt_state = Map.empty\<rparr>"

definition default_betas :: "real \<times> real" where
  "default_betas = (9 / 10, 999 / 1000)"

text \<open>
  \<^verbatim>\<open>LambdaLR\<close>: the number of schedule steps taken so far and the base learning rate
  it scales. The optimizer object it drives is not part of its state dict.
\<close>

record scheduler =
  last_epoch :: int
  base_lr :: real

text \<open>
  The content of a checkpoint file: the eight keys \<^verbatim>\<open>save_checkpoint\<close> always
  writes and the six keys \<^verbatim>\<open>train\<close> passes in \<^verbatim>\<open>dict_for_updating\<close> (no key of
  the second group shadows one of the first).
\<close>

record checkpoint =
  ck_torch_rng_state :: rng_blob
  ck_cuda_rng_state :: rng_blob
  ck_numpy_rng_state :: rng_blob
  ck_random_rng_state :: rng_blob
  ck_epoch :: int
  ck_state_dict :: state_dict
  ck_optimizer :: optimizer
  ck_scheduler :: scheduler
  ck_val_loss :: real
  ck_val_cider :: real
  ck_patience :: int
  ck_best_val_cider :: real
  ck_best_test_cider :: real
  ck_use_rl :: bool

text \<open>The \<^verbatim>\<open>dict_for_updating\<close> argument that \<^verbatim>\<open>train\<close> builds.\<close>

record extras =
  ex_val_loss :: real
  ex_val_cider :: real
  ex_patience :: int
  ex_best_val_cider :: real
  ex_best_test_cider :: real
  ex_use_rl :: bool

text \<open>The dictionary \<^verbatim>\<open>load_checkpoint\<close> returns.\<close>

record loaded =
  ld_use_rl :: bool
  ld_best_val_cider :: real
  ld_best_test_cider :: real
  ld_patience :: int
  ld_epoch :: int
  ld_optimizer :: optimizer
  ld_scheduler :: scheduler

text \<open>
  The part of \<^verbatim>\<open>config\<close> the trainer reads, with \<^verbatim>\<open>model.d_model\<close> beside it.
\<close>

record config =
  checkpoint_path :: string
  model_name :: string
  using_features :: string
  warmup :: nat
  d_model :: nat
  batch_size :: nat
  training_beam_size :: nat

text \<open>
  The trainer object together with the process-global state its methods touch: the
  random generators and the files of the run directory (a file holds a checkpoint as
  \<^verbatim>\<open>torch.save\<close> wrote it). \<open>sched_bound\<close> records whether the optimizer the
  scheduler drives is still the object \<^verbatim>\<open>self.optim\<close> refers to: it is after
  \<^verbatim>\<open>__init__\<close>, and no longer once \<^verbatim>\<open>train\<close> has assigned a new optimizer.
\<close>

record trainer =
  model :: state_dict
  optim :: optimizer
  scheduler :: scheduler
  sched_bound :: bool
  epoch :: int
  rng :: rng_states
  files :: "path \<rightharpoonup> checkpoint"

text \<open>The local variables \<^verbatim>\<open>train\<close> carries from one epoch to the next.\<close>

record ctrl =
  use_rl :: bool
  best_val_cider :: real
  best_test_cider :: real
  patience :: int

section \<open>Learning-rate schedule and construction\<close>

text \<open>
  \<^verbatim>\<open>lambda_lr\<close>: \<^verbatim>\<open>step += 1; (d_model ** -.5) * min(step ** -.5, step * warm_up ** -1.5)\<close>.
  A trainer only exists for positive \<^verbatim>\<open>warmup\<close> and \<^verbatim>\<open>d_model\<close>, since the
  constructor evaluates the function once.
\<close>

definition lambda_lr :: "config \<Rightarrow> int \<Rightarrow> real" where
  "lambda_lr cfg step =
     (let step' = real_of_int (step + 1)
      in (real (d_model cfg) powr (- (1 / 2))) *
         min (step' powr (- (1 / 2))) (step' * real (warmup cfg) powr (- (3 / 2))))"

text \<open>
  \<^verbatim>\<open>scheduler.step()\<close>: one more schedule step, and the learning rate of the driven
  optimizer set to \<open>base_lr * lambda_lr(last_epoch)\<close>.
\<close>

definition scheduler_step :: "config \<Rightarrow> trainer \<Rightarrow> trainer" where
  "scheduler_step cfg tr =
     (let s = (scheduler tr)\<lparr>last_epoch := last_epoch (scheduler tr) + 1\<rparr>
      in tr\<lparr>scheduler := s,
            optim := (if sched_bound tr
                      then (optim tr)\<lparr>lr := base_lr s * lambda_lr cfg (last_epoch s)\<rparr>
                      else optim tr)\<rparr>)"

text \<open>
  \<^verbatim>\<open>__init__\<close>: \<^verbatim>\<open>Adam(model.parameters(), lr=1, betas=(0.9, 0.98))\<close>, a
  \<^verbatim>\<open>LambdaLR\<close> on it (which applies the schedule at step 0), epoch 0.
\<close>

definition init_trainer :: "config \<Rightarrow> state_dict \<Rightarrow> rng_states \<Rightarrow> (path \<rightharpoonup> checkpoint) \<Rightarrow> trainer" where
  "init_trainer cfg w r fs =
     \<lparr>model = w,
      optim = (Adam 1 (9 / 10, 98 / 100))\<lparr>lr := 1 * lambda_lr cfg 0\<rparr>,
      scheduler = \<lparr>last_epoch = 0, base_lr = 1\<rparr>,
      sched_bound = True,
      epoch = 0,
      rng = r,
      files = fs\<rparr>"

section \<open>Checkpoint store\<close>

text \<open>\<^verbatim>\<open>os.path.join\<close> (posix) on two components, and the two slots of a run.\<close>

definition path_join :: "path \<Rightarrow> path \<Rightarrow> path" where
  "path_join a b =
     (if b \<noteq> [] \<and> hd b = CHR ''/'' then b
      else if a = [] \<or> last a = CHR ''/'' then a @ b
      else a @ ''/'' @ b)"

definition run_dir :: "config \<Rightarrow> path" where
  "run_dir cfg =
     path_join (checkpoint_path cfg) (model_name cfg @ ''_using_'' @ using_features cfg)"

definition last_path :: "config \<Rightarrow> path" where
  "last_path cfg = path_join (run_dir cfg) ''last_model.pth''"

definition best_path :: "config \<Rightarrow> path" where
  "best_path cfg = path_join (run_dir cfg) ''best_model.pth''"

text \<open>
  \<^verbatim>\<open>model.load_state_dict(sd, strict=False)\<close>: every parameter of the model that the
  loaded dictionary has takes the loaded tensor; parameters missing from the dictionary
  keep their value and keys the model does not have are ignored.
\<close>

definition load_state_dict :: "state_dict \<Rightarrow> state_dict \<Rightarrow> state_dict" where
  "load_state_dict cur sd =
     (\<lambda>k. case cur k of None \<Rightarrow> None
          | Some v \<Rightarrow> (case sd k of None \<Rightarrow> Some v | Some v' \<Rightarrow> Some v'))"

text \<open>
  \<^verbatim>\<open>load_checkpoint\<close>: \<open>None\<close> when the path does not exist; otherwise the four
  generator states and the model weights are restored from the file and the seven
  remaining entries are returned. Optimizer and scheduler of the trainer are not
  touched here: the caller decides what to do with the returned entries.
\<close>

definition load_checkpoint :: "trainer \<Rightarrow> path \<Rightarrow> trainer \<times> loaded option" where
  "load_checkpoint tr fname =
     (case files tr fname of
        None \<Rightarrow> (tr, None)
      | Some checkpoint \<Rightarrow>
          (tr\<lparr>rng := \<lparr>torch_rng = ck_torch_rng_state checkpoint,
                      cuda_rng = ck_cuda_rng_state checkpoint,
                      numpy_rng = ck_numpy_rng_state checkpoint,
                      random_rng = ck_random_rng_state checkpoint\<rparr>,
              model := load_state_dict (model tr) (ck_state_dict checkpoint)\<rparr>,
           Some \<lparr>ld_use_rl = ck_use_rl checkpoint,
                 ld_best_val_cider = ck_best_val_cider checkpoint,
                 ld_best_test_cider = ck_best_test_cider checkpoint,
                 ld_patience = ck_patience checkpoint,
                 ld_epoch = ck_epoch checkpoint,
                 ld_optimizer = ck_optimizer checkpoint,
                 ld_scheduler = ck_scheduler checkpoint\<rparr>))"

text \<open>
  \<^verbatim>\<open>save_checkpoint\<close>: the generator states, \<^verbatim>\<open>self.epoch\<close>, the weights and the
  state dicts of optimizer and scheduler, updated with the caller's entries, written
  to the "last" slot.
\<close>

definition dict_for_saving :: "trainer \<Rightarrow> extras \<Rightarrow> checkpoint" where
  "dict_for_saving tr dict_for_updating =
     \<lparr>ck_torch_rng_state = torch_rng (rng tr),
      ck_cuda_rng_state = cuda_rng (rng tr),
      ck_numpy_rng_state = numpy_rng (rng tr),
      ck_random_rng_state = random_rng (rng tr),
      ck_epoch = epoch tr,
      ck_state_dict = model tr,
      ck_optimizer = optim tr,
      ck_scheduler = scheduler tr,
      ck_val_loss = ex_val_loss dict_for_updating,
      ck_val_cider = ex_val_cider dict_for_updating,
      ck_patience = ex_patience dict_for_updating,
      ck_best_val_cider = ex_best_val_cider dict_for_updating,
      ck_best_test_cider = ex_best_test_cider dict_for_updating,
      ck_use_rl = ex_use_rl dict_for_updating\<rparr>"

definition save_checkpoint :: "config \<Rightarrow> trainer \<Rightarrow> extras \<Rightarrow> trainer" where
  "save_checkpoint cfg tr dict_for_updating =
     tr\<lparr>files := (files tr)(last_path cfg \<mapsto> dict_for_saving tr dict_for_updating)\<rparr>"

text \<open>\<^verbatim>\<open>shutil.copyfile(src, dst)\<close>: fails when the source does not exist.\<close>

definition copyfile :: "trainer \<Rightarrow> path \<Rightarrow> path \<Rightarrow> error + trainer" where
  "copyfile tr src dst =
     (case files tr src of
        None \<Rightarrow> Inl FileNotFoundError
      | Some c \<Rightarrow> Inr (tr\<lparr>files := (files tr)(dst \<mapsto> c)\<rparr>))"

text \<open>
  The head of \<^verbatim>\<open>train\<close>: resume from the named checkpoint when a name is given and
  it is a file, otherwise start from the fresh control state. Subscripting the result
  of \<^verbatim>\<open>load_checkpoint\<close> would raise if it were \<open>None\<close>.
\<close>

definition isfile :: "trainer \<Rightarrow> path \<Rightarrow> bool" where
  "isfile tr fname = (files tr fname \<noteq> None)"

definition fresh_ctrl :: ctrl where
  "fresh_ctrl = \<lparr>use_rl = False, best_val_cider = 0, best_test_cider = 0, patience = 0\<rparr>"

definition train_start :: "trainer \<Rightarrow> path option \<Rightarrow> error + (trainer \<times> ctrl)" where
  "train_start tr checkpoint_filename =
     (if checkpoint_filename \<noteq> None \<and> isfile tr (the checkpoint_filename) then
        (case load_checkpoint tr (the checkpoint_filename) of
           (tr', None) \<Rightarrow> Inl TypeError
         | (tr', Some checkpoint) \<Rightarrow>
             Inr (tr'\<lparr>epoch := ld_epoch checkpoint,
                      optim := ld_optimizer checkpoint,
                      scheduler := ld_scheduler checkpoint\<rparr>,
                  \<lparr>use_rl = ld_use_rl checkpoint,
                   best_val_cider = ld_best_val_cider checkpoint,
                   best_test_cider = ld_best_test_cider checkpoint,
                   patience = ld_patience checkpoint\<rparr>))
      else Inr (tr, fresh_ctrl))"

section \<open>Training passes\<close>

text \<open>
  The numeric collaborators are opaque: a forward/backward pass followed by
  \<^verbatim>\<open>optim.step()\<close> yields new weights, new optimizer moments and advanced random
  generators; beam search yields candidate sequences with their log-probabilities
  (shape batch \<times> beam \<times> length); the CIDEr scorer yields one reward per candidate as
  a flat vector; the evaluation passes change nothing but the random generators.
  \<open>'s\<close> is the type of a batch as a data loader yields it.
\<close>

record 's engine =
  xe_step :: "'s \<Rightarrow> trainer \<Rightarrow> state_dict \<times> adam_state \<times> rng_states"
  beam_search :: "'s \<Rightarrow> trainer \<Rightarrow> nat list list \<times> real list list list"
  cider_reward :: "'s \<Rightarrow> nat list list \<Rightarrow> real list"
  scst_step :: "'s \<Rightarrow> trainer \<Rightarrow> state_dict \<times> adam_state \<times> rng_states"
  after_eval :: "trainer \<Rightarrow> rng_states"

text \<open>
  \<^verbatim>\<open>train_xe\<close>: for every batch of the training loader one optimizer step and then
  one \<^verbatim>\<open>scheduler.step()\<close>.
\<close>

fun train_xe :: "'s engine \<Rightarrow> config \<Rightarrow> 's list \<Rightarrow> trainer \<Rightarrow> trainer" where
  "train_xe eng cfg [] tr = tr"
| "train_xe eng cfg (sample # rest) tr =
     (case xe_step eng sample tr of
        (w, a, r) \<Rightarrow>
          train_xe eng cfg rest
            (scheduler_step cfg (tr\<lparr>model := w, optim := (optim tr)\<lparr>opt_state := a\<rparr>, rng := r\<rparr>)))"

text \<open>
  The reward arithmetic of \<^verbatim>\<open>train_scst\<close>. \<^verbatim>\<open>view(b, k)\<close> raises unless the
  vector has \<open>b * k\<close> entries. The mean of an empty tensor is not a number in torch;
  here it is a division by zero, so results are meaningful for non-empty tensors,
  which is what a data loader with a positive batch size produces.
\<close>

definition view :: "real list \<Rightarrow> nat \<Rightarrow> nat \<Rightarrow> error + real list list" where
  "view v b k =
     (if length v = b * k then Inr (map (\<lambda>i. take k (drop (i * k) v)) [0..<b])
      else Inl ShapeError)"

definition mean :: "real list \<Rightarrow> real" where
  "mean xs = sum_list xs / real (length xs)"

definition mean_keepdim :: "real list list \<Rightarrow> real list list" where
  "mean_keepdim m = map (\<lambda>row. [mean row]) m"

definition mean_last :: "real list list list \<Rightarrow> real list list" where
  "mean_last t = map (map mean) t"

text \<open>\<open>reward - reward_baseline\<close>, the baseline column broadcast along the beam.\<close>

definition advantage :: "real list list \<Rightarrow> real list list \<Rightarrow> real list list" where
  "advantage reward reward_baseline =
     map2 (\<lambda>row b. map (\<lambda>x. x - hd b) row) reward reward_baseline"

text \<open>
  \<open>-torch.mean(log_probs, -1) * (reward - reward_baseline)\<close>, entry by entry. Beam
  search is called with the batch size of the loader and with \<^verbatim>\<open>out_size\<close> equal to
  the beam size, so \<open>log_probs\<close> has one row per sample and one entry per candidate,
  the shape of the reward.
\<close>

definition candidate_loss :: "real list list list \<Rightarrow> real list list \<Rightarrow> real list list" where
  "candidate_loss log_probs adv =
     map2 (map2 (\<lambda>l a. (- l) * a)) (mean_last log_probs) adv"

definition scst_loss :: "nat \<Rightarrow> nat \<Rightarrow> real list \<Rightarrow> real list list list \<Rightarrow> error + real" where
  "scst_loss b k reward_flat log_probs =
     (case view reward_flat b k of
        Inl e \<Rightarrow> Inl e
      | Inr reward \<Rightarrow>
          (let reward_baseline = mean_keepdim reward;
               loss = candidate_loss log_probs (advantage reward reward_baseline)
           in Inr (mean (concat loss))))"

text \<open>
  The batch size of \<^verbatim>\<open>train_dict_dataloader\<close>:
  \<^verbatim>\<open>config.dataset.batch_size // config.training.training_beam_size\<close>.
\<close>

definition dict_batch_size :: "config \<Rightarrow> nat" where
  "dict_batch_size cfg = batch_size cfg div training_beam_size cfg"

text \<open>
  \<^verbatim>\<open>train_scst\<close>: for every batch of the dictionary loader beam search, rewards,
  loss, and one optimizer step. There is no \<^verbatim>\<open>scheduler.step()\<close> in this pass.
\<close>

fun train_scst :: "'s engine \<Rightarrow> config \<Rightarrow> 's list \<Rightarrow> trainer \<Rightarrow> error + trainer" where
  "train_scst eng cfg [] tr = Inr tr"
| "train_scst eng cfg (sample # rest) tr =
     (case beam_search eng sample tr of
        (outs, log_probs) \<Rightarrow>
          (case scst_loss (dict_batch_size cfg) (training_beam_size cfg)
                  (cider_reward eng sample outs) log_probs of
             Inl e \<Rightarrow> Inl e
           | Inr loss \<Rightarrow>
               (case scst_step eng sample tr of
                  (w, a, r) \<Rightarrow>
                    train_scst eng cfg rest
                      (tr\<lparr>model := w, optim := (optim tr)\<lparr>opt_state := a\<rparr>, rng := r\<rparr>))))"

section \<open>The training loop\<close>

text \<open>
  What one pass of the loop body reads from outside: the batches the two training
  loaders yield, the value \<^verbatim>\<open>evaluate_loss\<close> returns and the entry
  \<^verbatim>\<open>scores['CIDEr']\<close> of what \<^verbatim>\<open>evaluate_metrics\<close> returns on the validation set.
\<close>

record 's epoch_io =
  train_batches :: "'s list"
  train_dict_batches :: "'s list"
  io_val_loss :: real
  io_val_cider :: real

record epoch_result =
  er_trainer :: trainer
  er_ctrl :: ctrl
  er_best :: bool
  er_switch_to_rl :: bool
  er_exit_train :: bool

text \<open>
  The body of \<^verbatim>\<open>while True\<close> up to the test of \<^verbatim>\<open>exit_train\<close>: training pass,
  evaluation, the patience update, the switch or exit at patience 5, the rollback,
  \<^verbatim>\<open>save_checkpoint\<close> and the copy to the "best" slot. The evaluation on the test
  set, when there is one, only prints its scores; \<^verbatim>\<open>best_test_cider\<close> is carried
  along unchanged.
\<close>

definition train_epoch ::
  "'s engine \<Rightarrow> config \<Rightarrow> 's epoch_io \<Rightarrow> trainer \<Rightarrow> ctrl \<Rightarrow> error + epoch_result" where
  "train_epoch eng cfg io tr c =
     (case (if \<not> use_rl c then Inr (train_xe eng cfg (train_batches io) tr)
            else train_scst eng cfg (train_dict_batches io) tr) of
        Inl e \<Rightarrow> Inl e
      | Inr tr1 \<Rightarrow>
          (let tr2 = tr1\<lparr>rng := after_eval eng tr1\<rparr>;
               val_loss = io_val_loss io;
               val_cider = io_val_cider io;
               best = (val_cider \<ge> best_val_cider c);
               c1 = (if val_cider \<ge> best_val_cider c
                     then c\<lparr>best_val_cider := val_cider, patience := 0\<rparr>
                     else c\<lparr>patience := patience c + 1\<rparr>);
               switch_to_rl = (patience c1 = 5 \<and> \<not> use_rl c1);
               exit_train = (patience c1 = 5 \<and> use_rl c1);
               c2 = (if patience c1 = 5 \<and> \<not> use_rl c1
                     then c1\<lparr>use_rl := True, patience := 0\<rparr> else c1);
               tr3 = (if patience c1 = 5 \<and> \<not> use_rl c1
                      then tr2\<lparr>optim := Adam (5 / 10 ^ 6) default_betas, sched_bound := False\<rparr>
                      else tr2);
               tr4 = (if switch_to_rl \<and> \<not> best
                      then fst (load_checkpoint tr3 (best_path cfg)) else tr3);
               tr5 = save_checkpoint cfg tr4
                       \<lparr>ex_val_loss = val_loss,
                        ex_val_cider = val_cider,
                        ex_patience = patience c2,
                        ex_best_val_cider = best_val_cider c2,
                        ex_best_test_cider = best_test_cider c2,
                        ex_use_rl = use_rl c2\<rparr>
           in case (if best then copyfile tr5 (last_path cfg) (best_path cfg) else Inr tr5) of
                Inl e \<Rightarrow> Inl e
              | Inr tr6 \<Rightarrow>
                  Inr \<lparr>er_trainer = tr6, er_ctrl = c2, er_best = best,
                       er_switch_to_rl = switch_to_rl, er_exit_train = exit_train\<rparr>))"

text \<open>
  The loop runs one pass per element of the list of epoch inputs. It ends with
  \<open>Exited\<close> at the \<^verbatim>\<open>break\<close>, with \<open>Raised\<close> when a pass raised, and with
  \<open>Pending\<close> when the inputs are used up and the loop would go on. The result lists
  what every completed pass left behind, in order.
\<close>

datatype outcome = Exited | Pending | Raised error

fun train_loop ::
  "'s engine \<Rightarrow> config \<Rightarrow> 's epoch_io list \<Rightarrow> trainer \<Rightarrow> ctrl \<Rightarrow> epoch_result list \<times> outcome" where
  "train_loop eng cfg [] tr c = ([], Pending)"
| "train_loop eng cfg (io # ios) tr c =
     (case train_epoch eng cfg io tr c of
        Inl e \<Rightarrow> ([], Raised e)
      | Inr r \<Rightarrow>
          if er_exit_train r then ([r], Exited)
          else (case train_loop eng cfg ios
                       ((er_trainer r)\<lparr>epoch := epoch (er_trainer r) + 1\<rparr>) (er_ctrl r) of
                  (rs, out) \<Rightarrow> (r # rs, out)))"

definition train ::
  "'s engine \<Rightarrow> config \<Rightarrow> path option \<Rightarrow> 's epoch_io list \<Rightarrow> trainer \<Rightarrow> epoch_result list \<times> outcome" where
  "train eng cfg checkpoint_filename ios tr =
     (case train_start tr checkpoint_filename of
        Inl e \<Rightarrow> ([], Raised e)
      | Inr (tr', c) \<Rightarrow> train_loop eng cfg ios tr' c)"

section \<open>Metric evaluation\<close>











section \<open>The patience policy in the words of the specification\<close>

text \<open>
  The trajectory of phase and patience over a sequence of validation metrics: a
  metric at least as good as the best one resets patience, any other increments it;
  patience 5 switches from the supervised phase to reinforcement with patience back
  at 0, and ends the trajectory in the reinforcement phase.
\<close>

datatype phase = SUPERVISED | REINFORCEMENT

fun patience_policy :: "phase \<Rightarrow> real \<Rightarrow> int \<Rightarrow> real list \<Rightarrow> (phase \<times> int) list" where
  "patience_policy ph best p [] = []"
| "patience_policy ph best p (v # vs) =
     (let best' = (if v \<ge> best then v else best);
          p' = (if v \<ge> best then 0 else p + 1)
      in if p' = 5 then
           (case ph of
              SUPERVISED \<Rightarrow> (REINFORCEMENT, 0) # patience_policy REINFORCEMENT best' 0 vs
            | REINFORCEMENT \<Rightarrow> [(REINFORCEMENT, 5)])
         else (ph, p') # patience_policy ph best' p' vs)"

definition phase_of :: "ctrl \<Rightarrow> phase" where
  "phase_of c = (if use_rl c then REINFORCEMENT else SUPERVISED)"

definition trajectory :: "epoch_result list \<Rightarrow> (phase \<times> int) list" where
  "trajectory rs = map (\<lambda>r. (phase_of (er_ctrl r), patience (er_ctrl r))) rs"

section \<open>Concrete runs\<close>

text \<open>
  A small configuration, a trainer fresh from the constructor and collaborators simple
  enough to evaluate: batches are numbers, training adds the batch to the first
  generator state, every candidate earns the reward one half.
\<close>

definition example_config :: config where
  "example_config =
     \<lparr>checkpoint_path = ''saved_models'', model_name = ''transformer'',
      using_features = ''region'', warmup = 10000, d_model = 512,
      batch_size = 1, training_beam_size = 1\<rparr>"

definition example_rng :: rng_states where
  "example_rng = \<lparr>torch_rng = [], cuda_rng = [], numpy_rng = [], random_rng = []\<rparr>"

definition example_weights :: state_dict where
  "example_weights = [''fc.weight'' \<mapsto> [1, 2]]"

definition example_trainer :: trainer where
  "example_trainer = init_trainer example_config example_weights example_rng Map.empty"

definition example_engine :: "nat engine" where
  "example_engine =
     \<lparr>xe_step = (\<lambda>s tr. (model tr, opt_state (optim tr), (rng tr)\<lparr>torch_rng := s # torch_rng (rng tr)\<rparr>)),
      beam_search = (\<lambda>s tr. ([[s]], [[[- 1, - 2]]])),
      cider_reward = (\<lambda>s outs. [1 / 2]),
      scst_step = (\<lambda>s tr. (model tr, opt_state (optim tr), (rng tr)\<lparr>torch_rng := s # torch_rng (rng tr)\<rparr>)),
      after_eval = rng\<rparr>"

definition epoch_with :: "real \<Rightarrow> nat epoch_io" where
  "epoch_with v = \<lparr>train_batches = [], train_dict_batches = [], io_val_loss = 1, io_val_cider = v\<rparr>"

text \<open>
  A supervised run about to lose patience: the "best" slot holds weights and
  generator states that differ from the current ones.
\<close>

definition example_best :: checkpoint where
  "example_best =
     \<lparr>ck_torch_rng_state = [7], ck_cuda_rng_state = [8], ck_numpy_rng_state = [9],
      ck_random_rng_state = [10], ck_epoch = 1, ck_state_dict = [''fc.weight'' \<mapsto> [3, 4]],
      ck_optimizer = \<lparr>lr = 1 / 1000, betas = (9 / 10, 98 / 100),
                      opt_state = [''fc.weight'' \<mapsto> (40, [1, 1], [2, 2])]\<rparr>,
      ck_scheduler = \<lparr>last_epoch = 40, base_lr = 1\<rparr>,
      ck_val_loss = 2, ck_val_cider = 1 / 10, ck_patience = 0, ck_best_val_cider = 1 / 10,
      ck_best_test_cider = 0, ck_use_rl = False\<rparr>"

definition trainer_with_best :: trainer where
  "trainer_with_best =
     (init_trainer example_config example_weights example_rng
        [best_path example_config \<mapsto> example_best])
     \<lparr>epoch := 6, scheduler := \<lparr>last_epoch = 120, base_lr = 1\<rparr>\<rparr>"

definition losing_patience :: ctrl where
  "losing_patience =
     \<lparr>use_rl = False, best_val_cider = 1 / 10, best_test_cider = 0, patience = 4\<rparr>"

text \<open>
  A run from the fresh state that ends at the \<^verbatim>\<open>break\<close>, the disk it leaves behind,
  and a second process started on that disk with the name of the "last" slot.
\<close>

definition finished_run :: "epoch_result list \<times> outcome" where
  "finished_run =
     train example_engine example_config None
       (map epoch_with [1 / 10, 1 / 20, 1 / 20, 1 / 20, 1 / 20, 1 / 20,
                        1 / 20, 1 / 20, 1 / 20, 1 / 20, 1 / 20])
       example_trainer"

definition disk_after_finish :: "path \<rightharpoonup> checkpoint" where
  "disk_after_finish = files (er_trainer (last (fst finished_run)))"

definition resumed_run :: "epoch_result list \<times> outcome" where
  "resumed_run =
     train example_engine example_config (Some (last_path example_config))
       [epoch_with (1 / 20)]
       (init_trainer example_config example_weights example_rng disk_after_finish)"




section \<open>What the passes leave untouched\<close>

lemma last_path_neq_best_path: "last_path cfg \<noteq> best_path cfg"
  by (simp add: last_path_def best_path_def path_join_def)

lemma load_checkpoint_frame:
  "epoch (fst (load_checkpoint tr f)) = epoch tr"
  "files (fst (load_checkpoint tr f)) = files tr"
  "optim (fst (load_checkpoint tr f)) = optim tr"
  "scheduler (fst (load_checkpoint tr f)) = scheduler tr"
  "sched_bound (fst (load_checkpoint tr f)) = sched_bound tr"
  by (simp_all add: load_checkpoint_def split: option.splits)

lemma scheduler_step_frame:
  "epoch (scheduler_step cfg tr) = epoch tr"
  "files (scheduler_step cfg tr) = files tr"
  "sched_bound (scheduler_step cfg tr) = sched_bound tr"
  "model (scheduler_step cfg tr) = model tr"
  "rng (scheduler_step cfg tr) = rng tr"
  "last_epoch (scheduler (scheduler_step cfg tr)) = last_epoch (scheduler tr) + 1"
  "base_lr (scheduler (scheduler_step cfg tr)) = base_lr (scheduler tr)"
  by (simp_all add: scheduler_step_def Let_def)

lemma train_xe_frame:
  "epoch (train_xe eng cfg bs tr) = epoch tr \<and>
   files (train_xe eng cfg bs tr) = files tr \<and>
   sched_bound (train_xe eng cfg bs tr) = sched_bound tr \<and>
   base_lr (scheduler (train_xe eng cfg bs tr)) = base_lr (scheduler tr)"
  by (induction bs arbitrary: tr) (auto simp: scheduler_step_frame split: prod.splits)

lemma train_xe_last_epoch:
  "last_epoch (scheduler (train_xe eng cfg bs tr)) = last_epoch (scheduler tr) + int (length bs)"
  by (induction bs arbitrary: tr) (auto simp: scheduler_step_frame split: prod.splits)

lemma train_scst_frame:
  "train_scst eng cfg bs tr = Inr tr' \<Longrightarrow>
     epoch tr' = epoch tr \<and> files tr' = files tr \<and> scheduler tr' = scheduler tr \<and>
     sched_bound tr' = sched_bound tr \<and> lr (optim tr') = lr (optim tr) \<and>
     betas (optim tr') = betas (optim tr)"
proof (induction bs arbitrary: tr)
  case Nil
  then show ?case by simp
next
  case (Cons s bs)
  then show ?case
    by (fastforce split: prod.splits sum.splits)
qed

lemma train_epoch_supervised_total:
  "\<not> use_rl c \<Longrightarrow> \<exists>r. train_epoch eng cfg io tr c = Inr r"
  by (simp add: train_epoch_def Let_def copyfile_def save_checkpoint_def)

lemma train_epoch_ctrl:
  assumes "train_epoch eng cfg io tr c = Inr r"
  shows "er_best r = (io_val_cider io \<ge> best_val_cider c)"
    and "best_val_cider (er_ctrl r) =
           (if io_val_cider io \<ge> best_val_cider c then io_val_cider io else best_val_cider c)"
    and "best_test_cider (er_ctrl r) = best_test_cider c"
    and "patience (er_ctrl r) =
           (if io_val_cider io \<ge> best_val_cider c then 0
            else if patience c + 1 = 5 \<and> \<not> use_rl c then 0 else patience c + 1)"
    and "use_rl (er_ctrl r) =
           (use_rl c \<or> (\<not> io_val_cider io \<ge> best_val_cider c \<and> patience c + 1 = 5))"
    and "er_switch_to_rl r =
           (\<not> io_val_cider io \<ge> best_val_cider c \<and> patience c + 1 = 5 \<and> \<not> use_rl c)"
    and "er_exit_train r =
           (\<not> io_val_cider io \<ge> best_val_cider c \<and> patience c + 1 = 5 \<and> use_rl c)"
  using assms
  by (auto simp add: train_epoch_def Let_def split: sum.splits if_splits)




section \<open>The loop follows the patience policy\<close>

lemma policy_step:
  assumes "train_epoch eng cfg io tr c = Inr r"
  shows "patience_policy (phase_of c) (best_val_cider c) (patience c) (io_val_cider io # vs) =
           (phase_of (er_ctrl r), patience (er_ctrl r)) #
           (if er_exit_train r then []
            else patience_policy (phase_of (er_ctrl r)) (best_val_cider (er_ctrl r))
                   (patience (er_ctrl r)) vs)"
  using train_epoch_ctrl [OF assms]
  by (auto simp add: phase_of_def Let_def)

lemma train_loop_trajectory_prefix:
  "train_loop eng cfg ios tr c = (rs, out) \<Longrightarrow>
     trajectory rs =
       take (length rs)
         (patience_policy (phase_of c) (best_val_cider c) (patience c) (map io_val_cider ios))"
proof (induction ios arbitrary: tr c rs out)
  case Nil
  then show ?case by (simp add: trajectory_def)
next
  case (Cons io ios)
  show ?case
  proof (cases "train_epoch eng cfg io tr c")
    case (Inl e)
    with Cons.prems show ?thesis by (simp add: trajectory_def)
  next
    case (Inr r)
    note step = policy_step [OF Inr, of "map io_val_cider ios"]
    show ?thesis
    proof (cases "er_exit_train r")
      case True
      with Cons.prems Inr show ?thesis
        by (auto simp add: trajectory_def step simp del: patience_policy.simps)
    next
      case False
      obtain rs' out' where rest:
        "train_loop eng cfg ios ((er_trainer r)\<lparr>epoch := epoch (er_trainer r) + 1\<rparr>) (er_ctrl r)
           = (rs', out')"
        by (cases "train_loop eng cfg ios ((er_trainer r)\<lparr>epoch := epoch (er_trainer r) + 1\<rparr>)
                     (er_ctrl r)")
      from Cons.prems Inr False rest have rs: "rs = r # rs'" by simp
      from Cons.IH [OF rest] rs False show ?thesis
        by (simp add: trajectory_def step del: patience_policy.simps)
    qed
  qed
qed

lemma train_loop_trajectory_full:
  "train_loop eng cfg ios tr c = (rs, out) \<Longrightarrow> \<forall>e. out \<noteq> Raised e \<Longrightarrow>
     trajectory rs =
       patience_policy (phase_of c) (best_val_cider c) (patience c) (map io_val_cider ios)"
proof (induction ios arbitrary: tr c rs out)
  case Nil
  then show ?case by (simp add: trajectory_def)
next
  case (Cons io ios)
  show ?case
  proof (cases "train_epoch eng cfg io tr c")
    case (Inl e)
    with Cons.prems have "out = Raised e" by simp
    with Cons.prems(2) show ?thesis by blast
  next
    case (Inr r)
    note step = policy_step [OF Inr, of "map io_val_cider ios"]
    show ?thesis
    proof (cases "er_exit_train r")
      case True
      with Cons.prems Inr show ?thesis
        by (auto simp add: trajectory_def step simp del: patience_policy.simps)
    next
      case False
      obtain rs' out' where rest:
        "train_loop eng cfg ios ((er_trainer r)\<lparr>epoch := epoch (er_trainer r) + 1\<rparr>) (er_ctrl r)
           = (rs', out')"
        by (cases "train_loop eng cfg ios ((er_trainer r)\<lparr>epoch := epoch (er_trainer r) + 1\<rparr>)
                     (er_ctrl r)")
      from Cons.prems Inr False rest have rs: "rs = r # rs'" and out: "out = out'" by simp_all
      from Cons.IH [OF rest] Cons.prems(2) out rs False show ?thesis
        by (simp add: trajectory_def step del: patience_policy.simps)
    qed
  qed
qed


lemma supervised_step:
  assumes "\<not> use_rl c"
  shows "\<exists>r. train_epoch eng cfg io tr c = Inr r \<and> \<not> er_exit_train r \<and>
             train_loop eng cfg (io # ios) tr c =
               (r # fst (train_loop eng cfg ios
                          ((er_trainer r)\<lparr>epoch := epoch (er_trainer r) + 1\<rparr>) (er_ctrl r)),
                snd (train_loop eng cfg ios
                       ((er_trainer r)\<lparr>epoch := epoch (er_trainer r) + 1\<rparr>) (er_ctrl r)))"
proof -
  from train_epoch_supervised_total [OF assms]
  obtain r where r: "train_epoch eng cfg io tr c = Inr r" by blast
  from train_epoch_ctrl(7) [OF r] assms have "\<not> er_exit_train r" by simp
  with r show ?thesis by (simp add: case_prod_unfold)
qed

lemma six_epochs:
  assumes vals: "map io_val_cider ios = [1 / 10, 1 / 20, 1 / 20, 1 / 20, 1 / 20, 1 / 20]"
  shows "\<exists>rs. train eng cfg None ios tr = (rs, Pending) \<and>
           trajectory rs = [(SUPERVISED, 0), (SUPERVISED, 1), (SUPERVISED, 2), (SUPERVISED, 3),
                            (SUPERVISED, 4), (REINFORCEMENT, 0)] \<and>
           map er_switch_to_rl rs = [False, False, False, False, False, True]"
proof -
  from vals obtain i1 i2 i3 i4 i5 i6 where ios: "ios = [i1, i2, i3, i4, i5, i6]"
    and v: "io_val_cider i1 = 1 / 10" "io_val_cider i2 = 1 / 20" "io_val_cider i3 = 1 / 20"
      "io_val_cider i4 = 1 / 20" "io_val_cider i5 = 1 / 20" "io_val_cider i6 = 1 / 20"
    by (auto simp: map_eq_Cons_conv)
  let ?nxt = "\<lambda>r. (er_trainer r)\<lparr>epoch := epoch (er_trainer r) + 1\<rparr>"
  have c0: "\<not> use_rl fresh_ctrl" "best_val_cider fresh_ctrl = 0" "patience fresh_ctrl = 0"
    by (simp_all add: fresh_ctrl_def)
  from supervised_step [OF c0(1)] obtain r1 where
    r1: "train_epoch eng cfg i1 tr fresh_ctrl = Inr r1"
    and l1: "train_loop eng cfg [i1, i2, i3, i4, i5, i6] tr fresh_ctrl =
      (r1 # fst (train_loop eng cfg [i2, i3, i4, i5, i6] (?nxt r1) (er_ctrl r1)),
       snd (train_loop eng cfg [i2, i3, i4, i5, i6] (?nxt r1) (er_ctrl r1)))"
    by blast
  have k1: "\<not> use_rl (er_ctrl r1)" "best_val_cider (er_ctrl r1) = 1 / 10"
    "patience (er_ctrl r1) = 0" "\<not> er_switch_to_rl r1"
    using train_epoch_ctrl [OF r1] v c0 by simp_all
  from supervised_step [OF k1(1)] obtain r2 where
    r2: "train_epoch eng cfg i2 (?nxt r1) (er_ctrl r1) = Inr r2"
    and l2: "train_loop eng cfg [i2, i3, i4, i5, i6] (?nxt r1) (er_ctrl r1) =
      (r2 # fst (train_loop eng cfg [i3, i4, i5, i6] (?nxt r2) (er_ctrl r2)),
       snd (train_loop eng cfg [i3, i4, i5, i6] (?nxt r2) (er_ctrl r2)))"
    by blast
  have k2: "\<not> use_rl (er_ctrl r2)" "best_val_cider (er_ctrl r2) = 1 / 10"
    "patience (er_ctrl r2) = 1" "\<not> er_switch_to_rl r2"
    using train_epoch_ctrl [OF r2] v k1 by simp_all
  from supervised_step [OF k2(1)] obtain r3 where
    r3: "train_epoch eng cfg i3 (?nxt r2) (er_ctrl r2) = Inr r3"
    and l3: "train_loop eng cfg [i3, i4, i5, i6] (?nxt r2) (er_ctrl r2) =
      (r3 # fst (train_loop eng cfg [i4, i5, i6] (?nxt r3) (er_ctrl r3)),
       snd (train_loop eng cfg [i4, i5, i6] (?nxt r3) (er_ctrl r3)))"
    by blast
  have k3: "\<not> use_rl (er_ctrl r3)" "best_val_cider (er_ctrl r3) = 1 / 10"
    "patience (er_ctrl r3) = 2" "\<not> er_switch_to_rl r3"
    using train_epoch_ctrl [OF r3] v k2 by simp_all
  from supervised_step [OF k3(1)] obtain r4 where
    r4: "train_epoch eng cfg i4 (?nxt r3) (er_ctrl r3) = Inr r4"
    and l4: "train_loop eng cfg [i4, i5, i6] (?nxt r3) (er_ctrl r3) =
      (r4 # fst (train_loop eng cfg [i5, i6] (?nxt r4) (er_ctrl r4)),
       snd (train_loop eng cfg [i5, i6] (?nxt r4) (er_ctrl r4)))"
    by blast
  have k4: "\<not> use_rl (er_ctrl r4)" "best_val_cider (er_ctrl r4) = 1 / 10"
    "patience (er_ctrl r4) = 3" "\<not> er_switch_to_rl r4"
    using train_epoch_ctrl [OF r4] v k3 by simp_all
  from supervised_step [OF k4(1)] obtain r5 where
    r5: "train_epoch eng cfg i5 (?nxt r4) (er_ctrl r4) = Inr r5"
    and l5: "train_loop eng cfg [i5, i6] (?nxt r4) (er_ctrl r4) =
      (r5 # fst (train_loop eng cfg [i6] (?nxt r5) (er_ctrl r5)),
       snd (train_loop eng cfg [i6] (?nxt r5) (er_ctrl r5)))"
    by blast
  have k5: "\<not> use_rl (er_ctrl r5)" "best_val_cider (er_ctrl r5) = 1 / 10"
    "patience (er_ctrl r5) = 4" "\<not> er_switch_to_rl r5"
    using train_epoch_ctrl [OF r5] v k4 by simp_all
  from supervised_step [OF k5(1)] obtain r6 where
    r6: "train_epoch eng cfg i6 (?nxt r5) (er_ctrl r5) = Inr r6"
    and l6: "train_loop eng cfg [i6] (?nxt r5) (er_ctrl r5) =
      (r6 # fst (train_loop eng cfg [] (?nxt r6) (er_ctrl r6)),
       snd (train_loop eng cfg [] (?nxt r6) (er_ctrl r6)))"
    by blast
  have k6: "use_rl (er_ctrl r6)" "patience (er_ctrl r6) = 0" "er_switch_to_rl r6"
    using train_epoch_ctrl [OF r6] v k5 by simp_all
  have run: "train eng cfg None ios tr = ([r1, r2, r3, r4, r5, r6], Pending)"
    by (simp add: train_def train_start_def ios l1 l2 l3 l4 l5 l6 del: train_loop.simps(2))
  have traj: "trajectory [r1, r2, r3, r4, r5, r6] =
      [(SUPERVISED, 0), (SUPERVISED, 1), (SUPERVISED, 2), (SUPERVISED, 3),
       (SUPERVISED, 4), (REINFORCEMENT, 0)]"
    by (simp add: trajectory_def phase_of_def k1 k2 k3 k4 k5 k6)
  have flags: "map er_switch_to_rl [r1, r2, r3, r4, r5, r6] =
      [False, False, False, False, False, True]"
    by (simp add: k1 k2 k3 k4 k5 k6)
  from run traj flags show ?thesis
    by (intro exI [of _ "[r1, r2, r3, r4, r5, r6]"] conjI)
qed

lemma training_pass_frame:
  assumes "(if \<not> use_rl c then Inr (train_xe eng cfg (train_batches io) tr)
            else train_scst eng cfg (train_dict_batches io) tr) = Inr tr1"
  shows "epoch tr1 = epoch tr" and "files tr1 = files tr"
  using assms train_xe_frame [of eng cfg "train_batches io" tr]
    train_scst_frame [of eng cfg "train_dict_batches io" tr tr1]
  by (auto split: if_splits)

lemma train_epoch_files:
  assumes r: "train_epoch eng cfg io tr c = Inr r"
  shows "\<exists>ck. files (er_trainer r) (last_path cfg) = Some ck \<and>
              ck_epoch ck = epoch tr \<and>
              ck_val_loss ck = io_val_loss io \<and>
              ck_val_cider ck = io_val_cider io \<and>
              ck_patience ck = patience (er_ctrl r) \<and>
              ck_best_val_cider ck = best_val_cider (er_ctrl r) \<and>
              ck_best_test_cider ck = best_test_cider (er_ctrl r) \<and>
              ck_use_rl ck = use_rl (er_ctrl r) \<and>
              files (er_trainer r) (best_path cfg) =
                (if er_best r then Some ck else files tr (best_path cfg))"
proof -
  from r obtain tr1 where pass:
    "(if \<not> use_rl c then Inr (train_xe eng cfg (train_batches io) tr)
      else train_scst eng cfg (train_dict_batches io) tr) = Inr tr1"
    by (auto simp add: train_epoch_def split: sum.splits)
  note fr = training_pass_frame [OF pass]
  from r pass fr show ?thesis
    using last_path_neq_best_path [of cfg]
    by (auto simp add: train_epoch_def Let_def save_checkpoint_def copyfile_def
        dict_for_saving_def load_checkpoint_frame split: if_splits)
qed

lemma example_rl_epoch:
  "\<exists>r. train_epoch example_engine example_config (epoch_with (1 / 20)) example_trainer
          \<lparr>use_rl = True, best_val_cider = 1 / 10, best_test_cider = 0, patience = 4\<rparr> = Inr r"
  by (simp add: train_epoch_def epoch_with_def Let_def)


text \<open>
  C1. The phase and patience the loop reaches after each evaluation are given by
  \<open>patience_policy\<close> applied to the validation CIDEr scores alone (with the threshold
  5): whatever the collaborators do, the trajectory of the completed passes is the
  corresponding prefix of the policy's trajectory, and all of it unless a pass raised.
  In each pass a score at least as large as the best one so far replaces it, resets
  patience to 0 and marks the epoch best; any other score increments patience. From
  the fresh state the scores 0.1, 0.05, 0.05, 0.05, 0.05, 0.05 keep the run supervised
  for five evaluations and switch it to reinforcement at the sixth. When patience
  reaches 5 in the reinforcement phase the loop exits.
\<close>

theorem patience_trajectory:
  "trajectory (fst (train_loop eng cfg ios tr c)) =
     take (length (fst (train_loop eng cfg ios tr c)))
       (patience_policy (phase_of c) (best_val_cider c) (patience c) (map io_val_cider ios)) \<and>
   ((\<forall>e. snd (train_loop eng cfg ios tr c) \<noteq> Raised e) \<longrightarrow>
      trajectory (fst (train_loop eng cfg ios tr c)) =
        patience_policy (phase_of c) (best_val_cider c) (patience c) (map io_val_cider ios)) \<and>
   (train_epoch eng cfg io tr c = Inr r \<longrightarrow>
      er_best r = (io_val_cider io \<ge> best_val_cider c) \<and>
      best_val_cider (er_ctrl r) =
        (if io_val_cider io \<ge> best_val_cider c then io_val_cider io else best_val_cider c) \<and>
      patience (er_ctrl r) =
        (if io_val_cider io \<ge> best_val_cider c then 0
         else if patience c + 1 = 5 \<and> \<not> use_rl c then 0 else patience c + 1) \<and>
      er_switch_to_rl r =
        (\<not> io_val_cider io \<ge> best_val_cider c \<and> patience c + 1 = 5 \<and> \<not> use_rl c) \<and>
      er_exit_train r =
        (\<not> io_val_cider io \<ge> best_val_cider c \<and> patience c + 1 = 5 \<and> use_rl c) \<and>
      (er_exit_train r \<longrightarrow> train_loop eng cfg (io # ios) tr c = ([r], Exited))) \<and>
   (map io_val_cider ios' = [1 / 10, 1 / 20, 1 / 20, 1 / 20, 1 / 20, 1 / 20] \<longrightarrow>
      (\<exists>rs. train eng cfg None ios' tr = (rs, Pending) \<and>
            trajectory rs = [(SUPERVISED, 0), (SUPERVISED, 1), (SUPERVISED, 2),
                             (SUPERVISED, 3), (SUPERVISED, 4), (REINFORCEMENT, 0)] \<and>
            map er_switch_to_rl rs = [False, False, False, False, False, True]))"
proof (intro conjI impI)
  show "trajectory (fst (train_loop eng cfg ios tr c)) =
     take (length (fst (train_loop eng cfg ios tr c)))
       (patience_policy (phase_of c) (best_val_cider c) (patience c) (map io_val_cider ios))"
    by (rule train_loop_trajectory_prefix [of eng cfg ios tr c _ "snd (train_loop eng cfg ios tr c)"])
       simp
next
  assume "\<forall>e. snd (train_loop eng cfg ios tr c) \<noteq> Raised e"
  then show "trajectory (fst (train_loop eng cfg ios tr c)) =
        patience_policy (phase_of c) (best_val_cider c) (patience c) (map io_val_cider ios)"
    by (intro train_loop_trajectory_full [of eng cfg ios tr c _ "snd (train_loop eng cfg ios tr c)"])
       simp_all
next
  assume r: "train_epoch eng cfg io tr c = Inr r"
  note k = train_epoch_ctrl [OF r]
  show "er_best r = (io_val_cider io \<ge> best_val_cider c)" by (rule k(1))
  show "best_val_cider (er_ctrl r) =
        (if io_val_cider io \<ge> best_val_cider c then io_val_cider io else best_val_cider c)"
    by (rule k(2))
  show "patience (er_ctrl r) =
        (if io_val_cider io \<ge> best_val_cider c then 0
         else if patience c + 1 = 5 \<and> \<not> use_rl c then 0 else patience c + 1)"
    by (rule k(4))
  show "er_switch_to_rl r =
        (\<not> io_val_cider io \<ge> best_val_cider c \<and> patience c + 1 = 5 \<and> \<not> use_rl c)"
    by (rule k(6))
  show "er_exit_train r =
        (\<not> io_val_cider io \<ge> best_val_cider c \<and> patience c + 1 = 5 \<and> use_rl c)"
    by (rule k(7))
  assume "er_exit_train r"
  with r show "train_loop eng cfg (io # ios) tr c = ([r], Exited)" by simp
next
  assume "map io_val_cider ios' = [1 / 10, 1 / 20, 1 / 20, 1 / 20, 1 / 20, 1 / 20]"
  then show "\<exists>rs. train eng cfg None ios' tr = (rs, Pending) \<and>
            trajectory rs = [(SUPERVISED, 0), (SUPERVISED, 1), (SUPERVISED, 2),
                             (SUPERVISED, 3), (SUPERVISED, 4), (REINFORCEMENT, 0)] \<and>
            map er_switch_to_rl rs = [False, False, False, False, False, True]"
    by (rule six_epochs)
qed

theorem patience_trajectory_witness:
  "(\<exists>rs. train example_engine example_config None
           (map epoch_with [1 / 10, 1 / 20, 1 / 20, 1 / 20, 1 / 20, 1 / 20]) example_trainer
           = (rs, Pending) \<and>
         trajectory rs = [(SUPERVISED, 0), (SUPERVISED, 1), (SUPERVISED, 2),
                          (SUPERVISED, 3), (SUPERVISED, 4), (REINFORCEMENT, 0)] \<and>
         trajectory rs =
           patience_policy SUPERVISED 0 0 [1 / 10, 1 / 20, 1 / 20, 1 / 20, 1 / 20, 1 / 20]) \<and>
   (\<exists>r. train_loop example_engine example_config [epoch_with (1 / 20), epoch_with 1]
           example_trainer
           \<lparr>use_rl = True, best_val_cider = 1 / 10, best_test_cider = 0, patience = 4\<rparr>
           = ([r], Exited) \<and>
        \<not> er_best r \<and> patience (er_ctrl r) = 5 \<and> er_exit_train r)"
proof -
  let ?six = "map epoch_with [1 / 10, 1 / 20, 1 / 20, 1 / 20, 1 / 20, 1 / 20]"
  let ?rl = "\<lparr>use_rl = True, best_val_cider = 1 / 10, best_test_cider = 0, patience = 4\<rparr>"
  have vals: "map io_val_cider ?six = [1 / 10, 1 / 20, 1 / 20, 1 / 20, 1 / 20, 1 / 20]"
    by (simp add: epoch_with_def)
  from example_rl_epoch obtain r where
    r: "train_epoch example_engine example_config (epoch_with (1 / 20)) example_trainer ?rl = Inr r"
    by blast
  note first = patience_trajectory [of example_engine example_config ?six example_trainer
      fresh_ctrl "epoch_with (1 / 10)" r ?six]
  from first vals obtain rs where
    run: "train example_engine example_config None ?six example_trainer = (rs, Pending)"
    and traj: "trajectory rs = [(SUPERVISED, 0), (SUPERVISED, 1), (SUPERVISED, 2),
                          (SUPERVISED, 3), (SUPERVISED, 4), (REINFORCEMENT, 0)]"
    by blast
  from run have loop:
    "train_loop example_engine example_config ?six example_trainer fresh_ctrl = (rs, Pending)"
    by (simp add: train_def train_start_def)
  note full = first [THEN conjunct2, THEN conjunct1, rule_format]
  have "trajectory (fst (train_loop example_engine example_config ?six example_trainer fresh_ctrl)) =
      patience_policy (phase_of fresh_ctrl) (best_val_cider fresh_ctrl) (patience fresh_ctrl)
        (map io_val_cider ?six)"
    by (rule full) (unfold loop, simp)
  then have pol: "trajectory rs =
      patience_policy SUPERVISED 0 0 [1 / 10, 1 / 20, 1 / 20, 1 / 20, 1 / 20, 1 / 20]"
    unfolding loop vals by (simp add: phase_of_def fresh_ctrl_def del: patience_policy.simps)
  from r patience_trajectory [of example_engine example_config "[epoch_with 1]" example_trainer
      ?rl "epoch_with (1 / 20)" r ?six]
  have "train_loop example_engine example_config [epoch_with (1 / 20), epoch_with 1]
           example_trainer ?rl = ([r], Exited) \<and>
        \<not> er_best r \<and> patience (er_ctrl r) = 5 \<and> er_exit_train r"
    by (simp add: epoch_with_def)
  with run traj pol show ?thesis by blast
qed

section \<open>Checkpoint round trip and missing checkpoints\<close>

text \<open>
  C4. Whatever trainer and entries \<^verbatim>\<open>save_checkpoint\<close> is called with, loading the
  "last" slot afterwards returns a dictionary whose epoch is the trainer's epoch at
  the time of saving and whose best validation CIDEr, patience and phase flag are the
  entries that were passed in.
\<close>

theorem save_load_roundtrip:
  "\<exists>ld. snd (load_checkpoint (save_checkpoint cfg tr d) (last_path cfg)) = Some ld \<and>
        ld_epoch ld = epoch tr \<and>
        ld_best_val_cider ld = ex_best_val_cider d \<and>
        ld_patience ld = ex_patience d \<and>
        ld_use_rl ld = ex_use_rl d"
  by (simp add: load_checkpoint_def save_checkpoint_def dict_for_saving_def)

theorem save_load_roundtrip_witness:
  "\<exists>ld. snd (load_checkpoint
               (save_checkpoint example_config (example_trainer\<lparr>epoch := 3\<rparr>)
                  \<lparr>ex_val_loss = 2, ex_val_cider = 1 / 4, ex_patience = 2,
                   ex_best_val_cider = 1 / 2, ex_best_test_cider = 0, ex_use_rl = True\<rparr>)
               (last_path example_config)) = Some ld \<and>
        ld_epoch ld = 3 \<and> ld_best_val_cider ld = 1 / 2 \<and> ld_patience ld = 2 \<and> ld_use_rl ld"
  using save_load_roundtrip [of example_config "example_trainer\<lparr>epoch := 3\<rparr>"
      "\<lparr>ex_val_loss = 2, ex_val_cider = 1 / 4, ex_patience = 2,
        ex_best_val_cider = 1 / 2, ex_best_test_cider = 0, ex_use_rl = True\<rparr>"]
  by simp

text \<open>
  C6. \<^verbatim>\<open>load_checkpoint\<close> on a path that does not exist returns \<open>None\<close> and leaves
  the trainer as it was. \<^verbatim>\<open>train\<close> called without a file name, or with the name of
  a file that does not exist, raises nothing and enters the loop with the fresh
  control state: supervised phase, both best scores 0, patience 0.
\<close>

theorem missing_checkpoint_falls_back:
  "(files tr fname = None \<longrightarrow> load_checkpoint tr fname = (tr, None)) \<and>
   ((\<forall>f. checkpoint_filename = Some f \<longrightarrow> files tr f = None) \<longrightarrow>
      train_start tr checkpoint_filename =
        Inr (tr, \<lparr>use_rl = False, best_val_cider = 0, best_test_cider = 0, patience = 0\<rparr>) \<and>
      train eng cfg checkpoint_filename ios tr =
        train_loop eng cfg ios tr
          \<lparr>use_rl = False, best_val_cider = 0, best_test_cider = 0, patience = 0\<rparr>)"
  by (cases checkpoint_filename)
     (simp_all add: load_checkpoint_def train_start_def train_def isfile_def fresh_ctrl_def)

theorem missing_checkpoint_falls_back_witness:
  "load_checkpoint example_trainer ''saved_models/none.pth'' = (example_trainer, None) \<and>
   train_start example_trainer (Some ''saved_models/none.pth'') =
     Inr (example_trainer,
          \<lparr>use_rl = False, best_val_cider = 0, best_test_cider = 0, patience = 0\<rparr>) \<and>
   train_start example_trainer None =
     Inr (example_trainer,
          \<lparr>use_rl = False, best_val_cider = 0, best_test_cider = 0, patience = 0\<rparr>)"
proof -
  have absent: "files example_trainer ''saved_models/none.pth'' = None"
    by (simp add: example_trainer_def init_trainer_def)
  from absent
    missing_checkpoint_falls_back [of example_trainer "''saved_models/none.pth''"
      "Some ''saved_models/none.pth''" example_engine example_config "[]"]
    missing_checkpoint_falls_back [of example_trainer "''saved_models/none.pth''"
      None example_engine example_config "[]"]
  show ?thesis by simp
qed

section \<open>Ties in the validation score\<close>

lemma two_equal_epochs:
  assumes m: "0 \<le> m" and v: "io_val_cider io1 = m" "io_val_cider io2 = m"
  shows "\<exists>r1 r2. train eng cfg None [io1, io2] tr = ([r1, r2], Pending) \<and>
           best_val_cider (er_ctrl r1) = m \<and> best_val_cider (er_ctrl r2) = m \<and>
           er_best r2 \<and> patience (er_ctrl r2) = 0 \<and> \<not> use_rl (er_ctrl r2)"
proof -
  let ?nxt = "\<lambda>r. (er_trainer r)\<lparr>epoch := epoch (er_trainer r) + 1\<rparr>"
  have c0: "\<not> use_rl fresh_ctrl" "best_val_cider fresh_ctrl = 0" "patience fresh_ctrl = 0"
    by (simp_all add: fresh_ctrl_def)
  from supervised_step [OF c0(1)] obtain r1 where
    r1: "train_epoch eng cfg io1 tr fresh_ctrl = Inr r1"
    and l1: "train_loop eng cfg [io1, io2] tr fresh_ctrl =
      (r1 # fst (train_loop eng cfg [io2] (?nxt r1) (er_ctrl r1)),
       snd (train_loop eng cfg [io2] (?nxt r1) (er_ctrl r1)))"
    by blast
  have k1: "\<not> use_rl (er_ctrl r1)" "best_val_cider (er_ctrl r1) = m" "patience (er_ctrl r1) = 0"
    using train_epoch_ctrl [OF r1] v c0 m by simp_all
  from supervised_step [OF k1(1)] obtain r2 where
    r2: "train_epoch eng cfg io2 (?nxt r1) (er_ctrl r1) = Inr r2"
    and l2: "train_loop eng cfg [io2] (?nxt r1) (er_ctrl r1) =
      (r2 # fst (train_loop eng cfg [] (?nxt r2) (er_ctrl r2)),
       snd (train_loop eng cfg [] (?nxt r2) (er_ctrl r2)))"
    by blast
  have k2: "\<not> use_rl (er_ctrl r2)" "best_val_cider (er_ctrl r2) = m" "patience (er_ctrl r2) = 0"
    "er_best r2"
    using train_epoch_ctrl [OF r2] v k1 by simp_all
  have run: "train eng cfg None [io1, io2] tr = ([r1, r2], Pending)"
    by (simp add: train_def train_start_def l1 l2 del: train_loop.simps(2))
  from run k1 k2 show ?thesis
    by (intro exI [of _ r1] exI [of _ r2] conjI)
qed

text \<open>
  C2 (as the code has it). The test is \<^verbatim>\<open>val_cider >= best_val_cider\<close>, so a tie counts
  as an improvement: when a fresh run sees the same non-negative validation CIDEr in
  its first two epochs, the best score keeps that value after the second epoch, the
  second epoch is marked best again and patience is 0 after it, not 1. The run is then
  still in the supervised phase.
\<close>

theorem tie_counts_as_best:
  "0 \<le> m \<and> io_val_cider io1 = m \<and> io_val_cider io2 = m \<longrightarrow>
     (\<exists>r1 r2. train eng cfg None [io1, io2] tr = ([r1, r2], Pending) \<and>
        best_val_cider (er_ctrl r1) = m \<and> best_val_cider (er_ctrl r2) = m \<and>
        er_best r2 \<and> patience (er_ctrl r2) = 0 \<and> \<not> use_rl (er_ctrl r2))"
  using two_equal_epochs by blast

theorem tie_counts_as_best_witness:
  "\<exists>r1 r2. train example_engine example_config None [epoch_with (1 / 2), epoch_with (1 / 2)]
              example_trainer = ([r1, r2], Pending) \<and>
        best_val_cider (er_ctrl r1) = 1 / 2 \<and> best_val_cider (er_ctrl r2) = 1 / 2 \<and>
        er_best r2 \<and> patience (er_ctrl r2) = 0 \<and> \<not> use_rl (er_ctrl r2)"
  using tie_counts_as_best [of "1 / 2" "epoch_with (1 / 2)" "epoch_with (1 / 2)"
      example_engine example_config example_trainer]
  by (simp add: epoch_with_def)

text \<open>
  The claim as stated fails: with validation CIDEr 0.5 in both epochs of a fresh run,
  patience is 0 after the first and 0 after the second epoch.
\<close>

theorem identical_metrics_counterexample:
  "map (\<lambda>r. patience (er_ctrl r))
     (fst (train example_engine example_config None [epoch_with (1 / 2), epoch_with (1 / 2)]
             example_trainer)) = [0, 0] \<and>
   patience (er_ctrl (fst (train example_engine example_config None
             [epoch_with (1 / 2), epoch_with (1 / 2)] example_trainer) ! 1)) \<noteq> 1"
proof -
  have v: "io_val_cider (epoch_with (1 / 2)) = 1 / 2" by (simp add: epoch_with_def)
  from two_equal_epochs [of "1 / 2" "epoch_with (1 / 2)" "epoch_with (1 / 2)"
      example_engine example_config example_trainer] v
  obtain r1 r2 where
    run: "train example_engine example_config None [epoch_with (1 / 2), epoch_with (1 / 2)]
            example_trainer = ([r1, r2], Pending)"
    and p2: "patience (er_ctrl r2) = 0" and b1: "best_val_cider (er_ctrl r1) = 1 / 2"
    by auto
  have l: "train_loop example_engine example_config [epoch_with (1 / 2), epoch_with (1 / 2)]
            example_trainer fresh_ctrl = ([r1, r2], Pending)"
    using run by (simp add: train_def train_start_def)
  have r1: "train_epoch example_engine example_config (epoch_with (1 / 2)) example_trainer
              fresh_ctrl = Inr r1"
    using l by (auto split: sum.splits if_splits prod.splits)
  have p1: "patience (er_ctrl r1) = 0"
    using train_epoch_ctrl(4) [OF r1] v by (simp add: fresh_ctrl_def)
  show ?thesis unfolding run using p1 p2 by simp
qed

section \<open>The switch to reinforcement learning\<close>

lemma load_state_dict_same_keys:
  "dom sd = dom cur \<Longrightarrow> load_state_dict cur sd = sd"
proof (rule ext)
  fix k
  assume "dom sd = dom cur"
  then have "(sd k = None) = (cur k = None)" by (metis domIff)
  then show "load_state_dict cur sd k = sd k"
    by (cases "cur k"; cases "sd k") (simp_all add: load_state_dict_def)
qed

lemma switch_epoch:
  assumes c: "\<not> use_rl c" "patience c = 4" "io_val_cider io < best_val_cider c"
  shows "train_epoch eng cfg io tr c =
    Inr \<lparr>er_trainer =
           save_checkpoint cfg
             (fst (load_checkpoint
                ((train_xe eng cfg (train_batches io) tr)
                   \<lparr>rng := after_eval eng (train_xe eng cfg (train_batches io) tr),
                    optim := Adam (5 / 10 ^ 6) default_betas, sched_bound := False\<rparr>)
                (best_path cfg)))
             \<lparr>ex_val_loss = io_val_loss io, ex_val_cider = io_val_cider io, ex_patience = 0,
              ex_best_val_cider = best_val_cider c, ex_best_test_cider = best_test_cider c,
              ex_use_rl = True\<rparr>,
          er_ctrl = c\<lparr>patience := 0, use_rl := True\<rparr>,
          er_best = False, er_switch_to_rl = True, er_exit_train = False\<rparr>"
  using c by (simp add: train_epoch_def Let_def)


text \<open>
  C3. In the supervised pass in which patience reaches 5 the loop switches to
  reinforcement learning: \<^verbatim>\<open>self.optim\<close> becomes a newly constructed Adam with the
  fixed learning rate 5e-6 (below the rate 1 the constructor gave the first optimizer)
  and no accumulated state. Such a pass is never a best one, so the "best" checkpoint
  is loaded if the slot holds one: the weights become the stored ones (exactly those,
  when the stored dictionary has the model's parameter names) and the four generator
  states are restored. The optimizer stays the new one and the scheduler stays what
  the training pass left: neither is taken from the checkpoint.
\<close>

theorem switch_to_rl_effects:
  "\<not> use_rl c \<and> patience c = 4 \<and> io_val_cider io < best_val_cider c \<longrightarrow>
     (\<exists>r. train_epoch eng cfg io tr c = Inr r \<and>
        er_switch_to_rl r \<and> \<not> er_best r \<and> use_rl (er_ctrl r) \<and> patience (er_ctrl r) = 0 \<and>
        optim (er_trainer r) = Adam (5 / 10 ^ 6) default_betas \<and>
        lr (optim (er_trainer r)) = 5 / 10 ^ 6 \<and>
        opt_state (optim (er_trainer r)) = Map.empty \<and>
        lr (optim (er_trainer r)) < lr (Adam 1 (9 / 10, 98 / 100)) \<and>
        scheduler (er_trainer r) = scheduler (train_xe eng cfg (train_batches io) tr) \<and>
        \<not> sched_bound (er_trainer r) \<and>
        (case files tr (best_path cfg) of
           None \<Rightarrow>
             model (er_trainer r) = model (train_xe eng cfg (train_batches io) tr) \<and>
             rng (er_trainer r) = after_eval eng (train_xe eng cfg (train_batches io) tr)
         | Some best \<Rightarrow>
             model (er_trainer r) =
               load_state_dict (model (train_xe eng cfg (train_batches io) tr))
                 (ck_state_dict best) \<and>
             (dom (ck_state_dict best) = dom (model (train_xe eng cfg (train_batches io) tr))
                \<longrightarrow> model (er_trainer r) = ck_state_dict best) \<and>
             rng (er_trainer r) =
               \<lparr>torch_rng = ck_torch_rng_state best, cuda_rng = ck_cuda_rng_state best,
                numpy_rng = ck_numpy_rng_state best,
                random_rng = ck_random_rng_state best\<rparr>))"
proof
  assume "\<not> use_rl c \<and> patience c = 4 \<and> io_val_cider io < best_val_cider c"
  then have c: "\<not> use_rl c" "patience c = 4" "io_val_cider io < best_val_cider c"
    by simp_all
  let ?tr1 = "train_xe eng cfg (train_batches io) tr"
  have fs: "files ?tr1 = files tr" using train_xe_frame [of eng cfg "train_batches io" tr] by simp
  show "\<exists>r. train_epoch eng cfg io tr c = Inr r \<and>
        er_switch_to_rl r \<and> \<not> er_best r \<and> use_rl (er_ctrl r) \<and> patience (er_ctrl r) = 0 \<and>
        optim (er_trainer r) = Adam (5 / 10 ^ 6) default_betas \<and>
        lr (optim (er_trainer r)) = 5 / 10 ^ 6 \<and>
        opt_state (optim (er_trainer r)) = Map.empty \<and>
        lr (optim (er_trainer r)) < lr (Adam 1 (9 / 10, 98 / 100)) \<and>
        scheduler (er_trainer r) = scheduler ?tr1 \<and>
        \<not> sched_bound (er_trainer r) \<and>
        (case files tr (best_path cfg) of
           None \<Rightarrow>
             model (er_trainer r) = model ?tr1 \<and>
             rng (er_trainer r) = after_eval eng ?tr1
         | Some best \<Rightarrow>
             model (er_trainer r) = load_state_dict (model ?tr1) (ck_state_dict best) \<and>
             (dom (ck_state_dict best) = dom (model ?tr1)
                \<longrightarrow> model (er_trainer r) = ck_state_dict best) \<and>
             rng (er_trainer r) =
               \<lparr>torch_rng = ck_torch_rng_state best, cuda_rng = ck_cuda_rng_state best,
                numpy_rng = ck_numpy_rng_state best,
                random_rng = ck_random_rng_state best\<rparr>)"
    unfolding switch_epoch [OF c]
    by (cases "files tr (best_path cfg)")
       (simp_all add: save_checkpoint_def load_checkpoint_def fs Adam_def
          load_state_dict_same_keys)
qed

theorem switch_to_rl_effects_witness:
  "\<exists>r. train_epoch example_engine example_config (epoch_with (1 / 20)) trainer_with_best
          losing_patience = Inr r \<and>
        er_switch_to_rl r \<and> \<not> er_best r \<and>
        lr (optim (er_trainer r)) = 5 / 10 ^ 6 \<and>
        opt_state (optim (er_trainer r)) = Map.empty \<and>
        scheduler (er_trainer r) = \<lparr>last_epoch = 120, base_lr = 1\<rparr> \<and>
        model (er_trainer r) = [''fc.weight'' \<mapsto> [3, 4]] \<and>
        rng (er_trainer r) =
          \<lparr>torch_rng = [7], cuda_rng = [8], numpy_rng = [9], random_rng = [10]\<rparr>"
proof -
  have pre: "\<not> use_rl losing_patience \<and> patience losing_patience = 4 \<and>
      io_val_cider (epoch_with (1 / 20)) < best_val_cider losing_patience"
    by (simp add: losing_patience_def epoch_with_def)
  have best: "files trainer_with_best (best_path example_config) = Some example_best"
    by (simp add: trainer_with_best_def init_trainer_def)
  have xe: "train_xe example_engine example_config (train_batches (epoch_with (1 / 20)))
      trainer_with_best = trainer_with_best"
    by (simp add: epoch_with_def)
  have keys: "dom (ck_state_dict example_best) = dom (model trainer_with_best)"
    by (simp add: example_best_def trainer_with_best_def init_trainer_def example_weights_def)
  from switch_to_rl_effects [of losing_patience "epoch_with (1 / 20)" example_engine
      example_config trainer_with_best] pre
  obtain r where r:
    "train_epoch example_engine example_config (epoch_with (1 / 20)) trainer_with_best
       losing_patience = Inr r"
    "er_switch_to_rl r" "\<not> er_best r" "lr (optim (er_trainer r)) = 5 / 10 ^ 6"
    "opt_state (optim (er_trainer r)) = Map.empty"
    "scheduler (er_trainer r) = scheduler trainer_with_best"
    "model (er_trainer r) = ck_state_dict example_best"
    "rng (er_trainer r) =
       \<lparr>torch_rng = ck_torch_rng_state example_best, cuda_rng = ck_cuda_rng_state example_best,
        numpy_rng = ck_numpy_rng_state example_best,
        random_rng = ck_random_rng_state example_best\<rparr>"
    unfolding xe best using keys by auto
  have "scheduler trainer_with_best = \<lparr>last_epoch = 120, base_lr = 1\<rparr>"
    by (simp add: trainer_with_best_def)
  with r show ?thesis
    by (intro exI [of _ r]) (simp add: example_best_def)
qed

section \<open>Reward baseline with a single beam\<close>

lemma view_single_column:
  "length v = b \<Longrightarrow> map (\<lambda>i. take 1 (drop (i * 1) v)) [0..<b] = map (\<lambda>x. [x]) v"
  by (rule nth_equalityI) (simp_all add: Cons_nth_drop_Suc [symmetric])

lemma mean_keepdim_single_column: "mean_keepdim (map (\<lambda>x. [x]) v) = map (\<lambda>x. [x]) v"
  by (simp add: mean_keepdim_def mean_def)

lemma advantage_single_column:
  "advantage (map (\<lambda>x. [x]) v) (map (\<lambda>x. [x]) v) = replicate (length v) [0]"
  by (induction v) (simp_all add: advantage_def)

lemma candidate_loss_zero:
  "length lp = b \<Longrightarrow> \<forall>row \<in> set lp. length row = 1 \<Longrightarrow>
     candidate_loss lp (replicate b [0]) = replicate b [0]"
proof (induction lp arbitrary: b)
  case Nil
  then show ?case by (simp add: candidate_loss_def mean_last_def)
next
  case (Cons row lp)
  then obtain b' where b: "b = Suc b'" "length lp = b'" by (cases b) auto
  from Cons.prems obtain l where row: "row = [l]" by (cases row) auto
  from Cons.IH [OF b(2)] Cons.prems(2) have "candidate_loss lp (replicate b' [0]) = replicate b' [0]"
    by simp
  then show ?case by (simp add: candidate_loss_def mean_last_def b row)
qed

lemma mean_zeros: "mean (replicate b 0) = 0"
  by (simp add: mean_def sum_list_replicate)


text \<open>
  C7. With \<^verbatim>\<open>training_beam_size\<close> 1, for a batch in which the scorer returned one
  reward per sample and beam search returned one candidate per sample, \<^verbatim>\<open>view\<close>
  succeeds, the baseline (the mean over the beam dimension) equals the reward of every
  sample, reward minus baseline is 0 for every candidate, every candidate's loss term
  is 0 and the loss of the batch is 0. Nothing is raised: the loss is a value.
\<close>

theorem beam_one_zero_signal:
  "training_beam_size cfg = 1 \<and> 0 < dict_batch_size cfg \<and>
   length reward_flat = dict_batch_size cfg \<and> length log_probs = dict_batch_size cfg \<and>
   (\<forall>row \<in> set log_probs. length row = 1 \<and> (\<forall>lp \<in> set row. lp \<noteq> [])) \<longrightarrow>
     view reward_flat (dict_batch_size cfg) (training_beam_size cfg) =
       Inr (map (\<lambda>x. [x]) reward_flat) \<and>
     mean_keepdim (map (\<lambda>x. [x]) reward_flat) = map (\<lambda>x. [x]) reward_flat \<and>
     advantage (map (\<lambda>x. [x]) reward_flat) (mean_keepdim (map (\<lambda>x. [x]) reward_flat)) =
       replicate (dict_batch_size cfg) [0] \<and>
     candidate_loss log_probs (replicate (dict_batch_size cfg) [0]) =
       replicate (dict_batch_size cfg) [0] \<and>
     scst_loss (dict_batch_size cfg) (training_beam_size cfg) reward_flat log_probs = Inr 0"
proof
  assume a: "training_beam_size cfg = 1 \<and> 0 < dict_batch_size cfg \<and>
   length reward_flat = dict_batch_size cfg \<and> length log_probs = dict_batch_size cfg \<and>
   (\<forall>row \<in> set log_probs. length row = 1 \<and> (\<forall>lp \<in> set row. lp \<noteq> []))"
  let ?b = "dict_batch_size cfg"
  let ?reward = "map (\<lambda>x. [x]) reward_flat"
  from a have k: "training_beam_size cfg = 1" and len: "length reward_flat = ?b"
    and lp: "length log_probs = ?b" and rows: "\<forall>row \<in> set log_probs. length row = 1"
    by simp_all
  have v: "view reward_flat ?b (training_beam_size cfg) = Inr ?reward"
    using view_single_column [OF len] by (simp add: view_def k len)
  have base: "mean_keepdim ?reward = ?reward" by (rule mean_keepdim_single_column)
  have adv: "advantage ?reward (mean_keepdim ?reward) = replicate ?b [0]"
    using advantage_single_column [of reward_flat] by (simp add: base len)
  have cand: "candidate_loss log_probs (replicate ?b [0]) = replicate ?b [0]"
    by (rule candidate_loss_zero [OF lp rows])
  have loss: "scst_loss ?b (training_beam_size cfg) reward_flat log_probs = Inr 0"
    by (simp add: scst_loss_def v Let_def adv cand mean_zeros)
  from v base adv cand loss
  show "view reward_flat ?b (training_beam_size cfg) = Inr ?reward \<and>
     mean_keepdim ?reward = ?reward \<and>
     advantage ?reward (mean_keepdim ?reward) = replicate ?b [0] \<and>
     candidate_loss log_probs (replicate ?b [0]) = replicate ?b [0] \<and>
     scst_loss ?b (training_beam_size cfg) reward_flat log_probs = Inr 0"
    by (intro conjI)
qed

theorem beam_one_zero_signal_witness:
  "view [1 / 2, 3 / 4] 2 1 = Inr [[1 / 2], [3 / 4]] \<and>
   mean_keepdim [[1 / 2], [3 / 4]] = [[1 / 2], [3 / 4]] \<and>
   advantage [[1 / 2], [3 / 4]] (mean_keepdim [[1 / 2], [3 / 4]]) = [[0], [0]] \<and>
   scst_loss 2 1 [1 / 2, 3 / 4] [[[- 1, - 2]], [[- 3, - 1]]] = Inr 0"
proof -
  let ?cfg = "example_config\<lparr>batch_size := 2\<rparr>"
  have b: "dict_batch_size ?cfg = 2" "training_beam_size ?cfg = 1"
    by (simp_all add: dict_batch_size_def example_config_def)
  from beam_one_zero_signal [of ?cfg "[1 / 2, 3 / 4]" "[[[- 1, - 2]], [[- 3, - 1]]]"]
  show ?thesis unfolding b by (simp add: numeral_2_eq_2 advantage_def)
qed

section \<open>Steps of the learning-rate schedule\<close>

lemma example_scst_pass:
  "\<exists>tr'. train_scst example_engine example_config [3, 4] example_trainer = Inr tr'"
  by (simp add: example_engine_def example_config_def dict_batch_size_def scst_loss_def
      view_def Let_def)

text \<open>
  C9 (as the code has it). The supervised pass \<^verbatim>\<open>train_xe\<close> advances the
  learning-rate schedule exactly once per training batch. The reinforcement pass
  \<^verbatim>\<open>train_scst\<close> does not advance it at all: it leaves the scheduler as it was and
  the learning rate of the optimizer unchanged, however many batches it processes.
\<close>

theorem schedule_steps_per_pass:
  "last_epoch (scheduler (train_xe eng cfg batches tr)) =
     last_epoch (scheduler tr) + int (length batches) \<and>
   (train_scst eng cfg batches tr = Inr tr' \<longrightarrow>
      scheduler tr' = scheduler tr \<and> lr (optim tr') = lr (optim tr))"
  using train_xe_last_epoch [of eng cfg batches tr] train_scst_frame [of eng cfg batches tr tr']
  by simp

theorem schedule_steps_per_pass_witness:
  "last_epoch (scheduler (train_xe example_engine example_config [3, 4] example_trainer)) = 2 \<and>
   (\<exists>tr'. train_scst example_engine example_config [3, 4] example_trainer = Inr tr' \<and>
          last_epoch (scheduler tr') = 0 \<and> lr (optim tr') = lr (optim example_trainer))"
proof -
  from example_scst_pass obtain tr' where
    t: "train_scst example_engine example_config [3, 4] example_trainer = Inr tr'"
    by blast
  have z: "last_epoch (scheduler example_trainer) = 0"
    by (simp add: example_trainer_def init_trainer_def)
  from t z schedule_steps_per_pass [of example_engine example_config "[3, 4]" example_trainer tr']
  show ?thesis by simp
qed

text \<open>
  The claim as stated fails for the reinforcement pass: over two batches the schedule
  counter of a fresh trainer stays at 0 instead of reaching 2.
\<close>

theorem scst_pass_schedule_counterexample:
  "map_sum id (\<lambda>t. last_epoch (scheduler t))
     (train_scst example_engine example_config [3, 4] example_trainer) = Inr 0 \<and>
   map_sum id (\<lambda>t. last_epoch (scheduler t))
     (train_scst example_engine example_config [3, 4] example_trainer) \<noteq>
     Inr (last_epoch (scheduler example_trainer) + int (length [3 :: nat, 4]))"
proof -
  from example_scst_pass obtain tr' where
    t: "train_scst example_engine example_config [3, 4] example_trainer = Inr tr'"
    by blast
  have z: "last_epoch (scheduler example_trainer) = 0"
    by (simp add: example_trainer_def init_trainer_def)
  from train_scst_frame [OF t] z have "last_epoch (scheduler tr') = 0" by simp
  with t z show ?thesis by simp
qed

section \<open>Patience in persisted checkpoints\<close>

lemma train_epoch_empty_dict_batches_total:
  "train_dict_batches io = [] \<Longrightarrow> \<exists>r. train_epoch eng cfg io tr c = Inr r"
  by (simp add: train_epoch_def Let_def copyfile_def save_checkpoint_def)

lemma train_loop_never_raises:
  "\<forall>io \<in> set ios. train_dict_batches io = [] \<Longrightarrow>
     \<forall>e. snd (train_loop eng cfg ios tr c) \<noteq> Raised e"
proof (induction ios arbitrary: tr c)
  case Nil
  then show ?case by simp
next
  case (Cons io ios)
  from Cons.prems have "train_dict_batches io = []" by simp
  from train_epoch_empty_dict_batches_total [OF this]
  obtain r where r: "train_epoch eng cfg io tr c = Inr r" by blast
  from Cons.prems have rest: "\<forall>io \<in> set ios. train_dict_batches io = []" by simp
  from Cons.IH [OF rest] r show ?case by (simp add: case_prod_unfold)
qed

lemma train_loop_outcome_exited:
  "train_loop eng cfg ios tr c = (rs, out) \<Longrightarrow>
     (out = Exited) = (rs \<noteq> [] \<and> er_exit_train (last rs))"
proof (induction ios arbitrary: tr c rs out)
  case Nil
  then show ?case by auto
next
  case (Cons io ios)
  show ?case
  proof (cases "train_epoch eng cfg io tr c")
    case (Inl e)
    with Cons.prems show ?thesis by auto
  next
    case (Inr r)
    show ?thesis
    proof (cases "er_exit_train r")
      case True
      with Cons.prems Inr show ?thesis by auto
    next
      case False
      obtain rs' out' where rest:
        "train_loop eng cfg ios ((er_trainer r)\<lparr>epoch := epoch (er_trainer r) + 1\<rparr>) (er_ctrl r)
           = (rs', out')"
        by (cases "train_loop eng cfg ios ((er_trainer r)\<lparr>epoch := epoch (er_trainer r) + 1\<rparr>)
                     (er_ctrl r)")
      from Cons.prems Inr False rest have rs: "rs = r # rs'" and out: "out = out'" by simp_all
      from Cons.IH [OF rest] rs out False show ?thesis by auto
    qed
  qed
qed

lemma train_loop_persisted:
  "train_loop eng cfg ios tr c = (rs, out) \<Longrightarrow> r \<in> set rs \<Longrightarrow>
     \<exists>ck. files (er_trainer r) (last_path cfg) = Some ck \<and>
          ck_patience ck = patience (er_ctrl r) \<and>
          ck_use_rl ck = use_rl (er_ctrl r) \<and>
          ck_best_val_cider ck = best_val_cider (er_ctrl r) \<and>
          ck_best_test_cider ck = best_test_cider (er_ctrl r) \<and>
          best_val_cider c \<le> best_val_cider (er_ctrl r) \<and>
          \<not> (\<not> use_rl (er_ctrl r) \<and> patience (er_ctrl r) = 5) \<and>
          (er_switch_to_rl r \<longrightarrow> \<not> er_best r \<and> use_rl (er_ctrl r) \<and> patience (er_ctrl r) = 0)"
proof (induction ios arbitrary: tr c rs out)
  case Nil
  then show ?case by simp
next
  case (Cons io ios)
  show ?case
  proof (cases "train_epoch eng cfg io tr c")
    case (Inl e)
    with Cons.prems show ?thesis by simp
  next
    case (Inr r0)
    note k = train_epoch_ctrl [OF Inr]
    from train_epoch_files [OF Inr] obtain ck where ck:
      "files (er_trainer r0) (last_path cfg) = Some ck"
      "ck_patience ck = patience (er_ctrl r0)" "ck_use_rl ck = use_rl (er_ctrl r0)"
      "ck_best_val_cider ck = best_val_cider (er_ctrl r0)"
      "ck_best_test_cider ck = best_test_cider (er_ctrl r0)"
      by blast
    have mono: "best_val_cider c \<le> best_val_cider (er_ctrl r0)" using k(2) by simp
    have nosup5: "\<not> (\<not> use_rl (er_ctrl r0) \<and> patience (er_ctrl r0) = 5)"
      using k(4) k(5) by (auto split: if_splits)
    have sw: "er_switch_to_rl r0 \<longrightarrow>
        \<not> er_best r0 \<and> use_rl (er_ctrl r0) \<and> patience (er_ctrl r0) = 0"
      using k(1) k(4) k(5) k(6) by auto
    have first: "\<exists>ck. files (er_trainer r0) (last_path cfg) = Some ck \<and>
          ck_patience ck = patience (er_ctrl r0) \<and>
          ck_use_rl ck = use_rl (er_ctrl r0) \<and>
          ck_best_val_cider ck = best_val_cider (er_ctrl r0) \<and>
          ck_best_test_cider ck = best_test_cider (er_ctrl r0) \<and>
          best_val_cider c \<le> best_val_cider (er_ctrl r0) \<and>
          \<not> (\<not> use_rl (er_ctrl r0) \<and> patience (er_ctrl r0) = 5) \<and>
          (er_switch_to_rl r0 \<longrightarrow>
             \<not> er_best r0 \<and> use_rl (er_ctrl r0) \<and> patience (er_ctrl r0) = 0)"
      using ck mono nosup5 sw by (intro exI [of _ ck]) simp
    show ?thesis
    proof (cases "er_exit_train r0")
      case True
      with Cons.prems Inr have "r = r0" by auto
      with first show ?thesis by simp
    next
      case False
      obtain rs' out' where rest:
        "train_loop eng cfg ios ((er_trainer r0)\<lparr>epoch := epoch (er_trainer r0) + 1\<rparr>)
           (er_ctrl r0) = (rs', out')"
        by (cases "train_loop eng cfg ios
                     ((er_trainer r0)\<lparr>epoch := epoch (er_trainer r0) + 1\<rparr>) (er_ctrl r0)")
      from Cons.prems Inr False rest have rs: "rs = r0 # rs'" by simp
      show ?thesis
      proof (cases "r = r0")
        case True
        with first show ?thesis by simp
      next
        case False
        with Cons.prems(2) rs have "r \<in> set rs'" by simp
        from Cons.IH [OF rest this] mono show ?thesis by fastforce
      qed
    qed
  qed
qed

lemma train_loop_patience_bound:
  "train_loop eng cfg ios tr c = (rs, out) \<Longrightarrow> 0 \<le> patience c \<Longrightarrow> patience c < 5 \<Longrightarrow>
   r \<in> set rs \<Longrightarrow>
     0 \<le> patience (er_ctrl r) \<and> patience (er_ctrl r) \<le> 5 \<and>
     (patience (er_ctrl r) = 5 \<longrightarrow> use_rl (er_ctrl r) \<and> er_exit_train r)"
proof (induction ios arbitrary: tr c rs out)
  case Nil
  then show ?case by simp
next
  case (Cons io ios)
  show ?case
  proof (cases "train_epoch eng cfg io tr c")
    case (Inl e)
    with Cons.prems show ?thesis by simp
  next
    case (Inr r0)
    note k = train_epoch_ctrl [OF Inr]
    have first: "0 \<le> patience (er_ctrl r0) \<and> patience (er_ctrl r0) \<le> 5 \<and>
        (patience (er_ctrl r0) = 5 \<longrightarrow> use_rl (er_ctrl r0) \<and> er_exit_train r0)"
      using k(4) k(5) k(7) Cons.prems(2,3) by (auto split: if_splits)
    show ?thesis
    proof (cases "er_exit_train r0")
      case True
      with Cons.prems Inr have "r = r0" by auto
      with first show ?thesis by simp
    next
      case False
      obtain rs' out' where rest:
        "train_loop eng cfg ios ((er_trainer r0)\<lparr>epoch := epoch (er_trainer r0) + 1\<rparr>)
           (er_ctrl r0) = (rs', out')"
        by (cases "train_loop eng cfg ios
                     ((er_trainer r0)\<lparr>epoch := epoch (er_trainer r0) + 1\<rparr>) (er_ctrl r0)")
      from Cons.prems Inr False rest have rs: "rs = r0 # rs'" by simp
      from first False have p: "0 \<le> patience (er_ctrl r0)" "patience (er_ctrl r0) < 5"
        by auto
      show ?thesis
      proof (cases "r = r0")
        case True
        with first show ?thesis by simp
      next
        case False
        with Cons.prems(4) rs have "r \<in> set rs'" by simp
        from Cons.IH [OF rest p this] show ?thesis .
      qed
    qed
  qed
qed


text \<open>
  C10 (as the code has it). In a run that starts with patience between 0 and 4 (a
  fresh run, or one resumed from any checkpoint but the terminal one), every
  checkpoint the loop writes to the "last" slot records the patience and phase the
  pass ended with, its patience lies between 0 and 5, and patience 5 occurs only in
  the reinforcement phase, in the pass after which the loop exits. From any start
  whatever, no checkpoint written has patience 5 in the supervised phase, and a pass
  that switches to reinforcement learning is a non-improving one that persists
  patience 0 with the reinforcement flag set.
\<close>

theorem persisted_patience_invariant:
  "(0 \<le> patience c \<and> patience c < 5 \<longrightarrow>
      (\<forall>r \<in> set (fst (train_loop eng cfg ios tr c)).
         \<exists>ck. files (er_trainer r) (last_path cfg) = Some ck \<and>
              ck_patience ck = patience (er_ctrl r) \<and> ck_use_rl ck = use_rl (er_ctrl r) \<and>
              0 \<le> ck_patience ck \<and> ck_patience ck \<le> 5 \<and>
              (ck_patience ck = 5 \<longrightarrow> ck_use_rl ck \<and> er_exit_train r))) \<and>
   (\<forall>r \<in> set (fst (train_loop eng cfg ios tr c)).
      \<exists>ck. files (er_trainer r) (last_path cfg) = Some ck \<and>
           \<not> (\<not> ck_use_rl ck \<and> ck_patience ck = 5) \<and>
           (er_switch_to_rl r \<longrightarrow> \<not> er_best r \<and> ck_use_rl ck \<and> ck_patience ck = 0))"
proof (intro conjI impI ballI)
  fix r
  assume c: "0 \<le> patience c \<and> patience c < 5"
    and r: "r \<in> set (fst (train_loop eng cfg ios tr c))"
  have loop: "train_loop eng cfg ios tr c =
      (fst (train_loop eng cfg ios tr c), snd (train_loop eng cfg ios tr c))"
    by simp
  from train_loop_persisted [OF loop r] obtain ck where ck:
    "files (er_trainer r) (last_path cfg) = Some ck"
    "ck_patience ck = patience (er_ctrl r)" "ck_use_rl ck = use_rl (er_ctrl r)"
    by blast
  from c have "0 \<le> patience c" "patience c < 5" by simp_all
  from train_loop_patience_bound [OF loop this r] ck
  show "\<exists>ck. files (er_trainer r) (last_path cfg) = Some ck \<and>
              ck_patience ck = patience (er_ctrl r) \<and> ck_use_rl ck = use_rl (er_ctrl r) \<and>
              0 \<le> ck_patience ck \<and> ck_patience ck \<le> 5 \<and>
              (ck_patience ck = 5 \<longrightarrow> ck_use_rl ck \<and> er_exit_train r)"
    by (intro exI [of _ ck]) simp
next
  fix r
  assume r: "r \<in> set (fst (train_loop eng cfg ios tr c))"
  have loop: "train_loop eng cfg ios tr c =
      (fst (train_loop eng cfg ios tr c), snd (train_loop eng cfg ios tr c))"
    by simp
  from train_loop_persisted [OF loop r] obtain ck where ck:
    "files (er_trainer r) (last_path cfg) = Some ck"
    "ck_patience ck = patience (er_ctrl r)" "ck_use_rl ck = use_rl (er_ctrl r)"
    "\<not> (\<not> use_rl (er_ctrl r) \<and> patience (er_ctrl r) = 5)"
    "er_switch_to_rl r \<longrightarrow> \<not> er_best r \<and> use_rl (er_ctrl r) \<and> patience (er_ctrl r) = 0"
    by blast
  then show "\<exists>ck. files (er_trainer r) (last_path cfg) = Some ck \<and>
           \<not> (\<not> ck_use_rl ck \<and> ck_patience ck = 5) \<and>
           (er_switch_to_rl r \<longrightarrow> \<not> er_best r \<and> ck_use_rl ck \<and> ck_patience ck = 0)"
    by (intro exI [of _ ck]) simp
qed

lemma eleven_epochs_trajectory:
  "trajectory (fst finished_run) =
     [(SUPERVISED, 0), (SUPERVISED, 1), (SUPERVISED, 2), (SUPERVISED, 3), (SUPERVISED, 4),
      (REINFORCEMENT, 0), (REINFORCEMENT, 1), (REINFORCEMENT, 2), (REINFORCEMENT, 3),
      (REINFORCEMENT, 4), (REINFORCEMENT, 5)]"
proof -
  let ?ios = "map epoch_with [1 / 10, 1 / 20, 1 / 20, 1 / 20, 1 / 20, 1 / 20,
                        1 / 20, 1 / 20, 1 / 20, 1 / 20, 1 / 20]"
  have run: "finished_run = train_loop example_engine example_config ?ios example_trainer fresh_ctrl"
    by (simp add: finished_run_def train_def train_start_def)
  have empty: "\<forall>io \<in> set ?ios. train_dict_batches io = []" by (simp add: epoch_with_def)
  have loop: "train_loop example_engine example_config ?ios example_trainer fresh_ctrl =
      (fst finished_run, snd finished_run)"
    unfolding run by simp
  have noraise: "\<forall>e. snd finished_run \<noteq> Raised e"
    unfolding run by (rule train_loop_never_raises [OF empty])
  have vals: "map io_val_cider ?ios = [1 / 10, 1 / 20, 1 / 20, 1 / 20, 1 / 20, 1 / 20,
                        1 / 20, 1 / 20, 1 / 20, 1 / 20, 1 / 20]"
    by (simp add: epoch_with_def)
  from train_loop_trajectory_full [OF loop noraise]
  have "trajectory (fst finished_run) =
      patience_policy (phase_of fresh_ctrl) (best_val_cider fresh_ctrl) (patience fresh_ctrl)
        (map io_val_cider ?ios)" .
  then show ?thesis unfolding vals by (simp add: phase_of_def fresh_ctrl_def)
qed


lemma finished_run_terminal:
  "snd finished_run = Exited \<and> fst finished_run \<noteq> [] \<and>
   last (fst finished_run) \<in> set (fst finished_run) \<and>
   er_exit_train (last (fst finished_run)) \<and>
   (\<exists>ck. disk_after_finish (last_path example_config) = Some ck \<and>
         ck_patience ck = 5 \<and> ck_use_rl ck \<and> 1 / 10 \<le> ck_best_val_cider ck)"
proof -
  let ?rest = "map epoch_with [1 / 20, 1 / 20, 1 / 20, 1 / 20, 1 / 20,
                        1 / 20, 1 / 20, 1 / 20, 1 / 20, 1 / 20]"
  let ?ios = "epoch_with (1 / 10) # ?rest"
  let ?rs = "fst finished_run"
  let ?nxt = "\<lambda>r. (er_trainer r)\<lparr>epoch := epoch (er_trainer r) + 1\<rparr>"
  have run: "finished_run = train_loop example_engine example_config ?ios example_trainer fresh_ctrl"
    by (simp add: finished_run_def train_def train_start_def)
  have loop: "train_loop example_engine example_config ?ios example_trainer fresh_ctrl =
      (?rs, snd finished_run)"
    unfolding run by simp
  note traj = eleven_epochs_trajectory
  have "length (trajectory ?rs) = 11" unfolding traj by simp
  then have len: "length ?rs = 11" by (simp add: trajectory_def)
  then have ne: "?rs \<noteq> []" by auto
  then have mem: "last ?rs \<in> set ?rs" by simp
  have "last (trajectory ?rs) = (REINFORCEMENT, 5)" unfolding traj by simp
  with ne have lastc: "phase_of (er_ctrl (last ?rs)) = REINFORCEMENT"
    "patience (er_ctrl (last ?rs)) = 5"
    by (simp_all add: trajectory_def last_map)
  have fresh: "0 \<le> patience fresh_ctrl" "patience fresh_ctrl < 5" "\<not> use_rl fresh_ctrl"
    "best_val_cider fresh_ctrl = 0"
    by (simp_all add: fresh_ctrl_def)
  from train_loop_patience_bound [OF loop fresh(1,2) mem] lastc
  have exit: "er_exit_train (last ?rs)" "use_rl (er_ctrl (last ?rs))" by simp_all
  from train_loop_outcome_exited [OF loop] ne exit have out: "snd finished_run = Exited"
    by simp
  from supervised_step [OF fresh(3)] obtain r1 where
    r1: "train_epoch example_engine example_config (epoch_with (1 / 10)) example_trainer
           fresh_ctrl = Inr r1"
    and l1: "train_loop example_engine example_config ?ios example_trainer fresh_ctrl =
      (r1 # fst (train_loop example_engine example_config ?rest (?nxt r1) (er_ctrl r1)),
       snd (train_loop example_engine example_config ?rest (?nxt r1) (er_ctrl r1)))"
    by blast
  let ?rs' = "fst (train_loop example_engine example_config ?rest (?nxt r1) (er_ctrl r1))"
  have b1: "best_val_cider (er_ctrl r1) = 1 / 10"
    using train_epoch_ctrl(2) [OF r1] fresh(4) by (simp add: epoch_with_def)
  have rs: "?rs = r1 # ?rs'" unfolding run by (simp only: l1 fst_conv)
  with len have ne': "?rs' \<noteq> []" by auto
  with rs have last': "last ?rs = last ?rs'" by simp
  from ne' have mem': "last ?rs' \<in> set ?rs'" by simp
  have loop': "train_loop example_engine example_config ?rest (?nxt r1) (er_ctrl r1) =
      (?rs', snd (train_loop example_engine example_config ?rest (?nxt r1) (er_ctrl r1)))"
    by simp
  from train_loop_persisted [OF loop' mem'] obtain ck where ck:
    "files (er_trainer (last ?rs')) (last_path example_config) = Some ck"
    "ck_patience ck = patience (er_ctrl (last ?rs'))"
    "ck_use_rl ck = use_rl (er_ctrl (last ?rs'))"
    "ck_best_val_cider ck = best_val_cider (er_ctrl (last ?rs'))"
    "best_val_cider (er_ctrl r1) \<le> best_val_cider (er_ctrl (last ?rs'))"
    by blast
  have disk: "disk_after_finish (last_path example_config) = Some ck"
    unfolding disk_after_finish_def last' by (rule ck(1))
  have "ck_patience ck = 5 \<and> ck_use_rl ck \<and> 1 / 10 \<le> ck_best_val_cider ck"
    using ck(2-5) lastc(2) exit(2) b1 unfolding last' by simp
  with disk out ne mem exit(1) show ?thesis by blast
qed

theorem persisted_patience_invariant_witness:
  "\<exists>r ck. r \<in> set (fst (train_loop example_engine example_config
                 (map epoch_with [1 / 10, 1 / 20, 1 / 20, 1 / 20, 1 / 20, 1 / 20,
                                  1 / 20, 1 / 20, 1 / 20, 1 / 20, 1 / 20])
                 example_trainer fresh_ctrl)) \<and>
     files (er_trainer r) (last_path example_config) = Some ck \<and>
     ck_patience ck = patience (er_ctrl r) \<and> ck_use_rl ck = use_rl (er_ctrl r) \<and>
     0 \<le> ck_patience ck \<and> ck_patience ck \<le> 5 \<and> ck_use_rl ck \<and> er_exit_train r"
proof -
  let ?ios = "map epoch_with [1 / 10, 1 / 20, 1 / 20, 1 / 20, 1 / 20, 1 / 20,
                        1 / 20, 1 / 20, 1 / 20, 1 / 20, 1 / 20]"
  let ?loop = "train_loop example_engine example_config ?ios example_trainer fresh_ctrl"
  have run: "finished_run = ?loop"
    by (simp add: finished_run_def train_def train_start_def)
  define r where "r = last (fst ?loop)"
  from finished_run_terminal have mem: "r \<in> set (fst ?loop)" and exit: "er_exit_train r"
    unfolding run r_def by simp_all
  have fresh: "0 \<le> patience fresh_ctrl \<and> patience fresh_ctrl < 5"
    by (simp add: fresh_ctrl_def)
  from persisted_patience_invariant [of fresh_ctrl example_engine example_config ?ios
      example_trainer] fresh mem
  obtain ck where ck: "files (er_trainer r) (last_path example_config) = Some ck"
    "ck_patience ck = patience (er_ctrl r)" "ck_use_rl ck = use_rl (er_ctrl r)"
    "0 \<le> ck_patience ck" "ck_patience ck \<le> 5"
    by blast
  have rl: "use_rl (er_ctrl r)"
  proof -
    from finished_run_terminal obtain ck' where
      "disk_after_finish (last_path example_config) = Some ck'" "ck_use_rl ck'"
      by blast
    with ck(1,3) show ?thesis
      unfolding disk_after_finish_def run r_def by simp
  qed
  from mem ck rl exit show ?thesis
    by (intro exI [of _ r] exI [of _ ck]) simp
qed

text \<open>
  The bound does not survive a restart on the terminal checkpoint: the run from the
  fresh state ends at the \<^verbatim>\<open>break\<close> and leaves patience 5 with the reinforcement
  flag in the "last" slot; a process resumed from that slot compares patience with 5
  only after incrementing it, so one more non-improving epoch persists patience 6 and
  the loop goes on.
\<close>

theorem resumed_terminal_checkpoint_counterexample:
  "snd finished_run = Exited \<and>
   map_option ck_patience (disk_after_finish (last_path example_config)) = Some 5 \<and>
   map_option ck_use_rl (disk_after_finish (last_path example_config)) = Some True \<and>
   length (fst resumed_run) = 1 \<and>
   map_option ck_patience
     (files (er_trainer (hd (fst resumed_run))) (last_path example_config)) = Some 6"
proof -
  let ?io = "epoch_with (1 / 20)"
  let ?tr = "init_trainer example_config example_weights example_rng disk_after_finish"
  from finished_run_terminal obtain ck where out: "snd finished_run = Exited"
    and disk: "disk_after_finish (last_path example_config) = Some ck"
    and ck: "ck_patience ck = 5" "ck_use_rl ck" "1 / 10 \<le> ck_best_val_cider ck"
    by blast
  have fs: "files ?tr (last_path example_config) = Some ck"
    by (simp add: init_trainer_def disk)
  obtain tr' c' where start:
    "train_start ?tr (Some (last_path example_config)) = Inr (tr', c')"
    and c': "use_rl c'" "patience c' = 5" "1 / 10 \<le> best_val_cider c'"
    using fs ck by (simp add: train_start_def isfile_def load_checkpoint_def)
  from train_epoch_empty_dict_batches_total [of ?io example_engine example_config tr' c']
  obtain r where r: "train_epoch example_engine example_config ?io tr' c' = Inr r"
    by (auto simp add: epoch_with_def)
  have v: "io_val_cider ?io = 1 / 20" by (simp add: epoch_with_def)
  have k: "patience (er_ctrl r) = 6" "\<not> er_exit_train r"
    using train_epoch_ctrl(4,7) [OF r] c' v by simp_all
  have run: "resumed_run = ([r], Pending)"
    using start r k(2) by (simp add: resumed_run_def train_def)
  from train_epoch_files [OF r] k(1) obtain ck' where
    "files (er_trainer r) (last_path example_config) = Some ck'" "ck_patience ck' = 6"
    by auto
  with out disk ck show ?thesis unfolding run by simp
qed

section \<open>The two checkpoint slots\<close>

lemma train_epoch_snapshot:
  assumes r: "train_epoch eng cfg io tr c = Inr r"
  shows "\<exists>ck. files (er_trainer r) (last_path cfg) = Some ck \<and>
              ck_state_dict ck = model (er_trainer r) \<and>
              ck_optimizer ck = optim (er_trainer r) \<and>
              ck_scheduler ck = scheduler (er_trainer r) \<and>
              ck_torch_rng_state ck = torch_rng (rng (er_trainer r)) \<and>
              ck_cuda_rng_state ck = cuda_rng (rng (er_trainer r)) \<and>
              ck_numpy_rng_state ck = numpy_rng (rng (er_trainer r)) \<and>
              ck_random_rng_state ck = random_rng (rng (er_trainer r)) \<and>
              ck_epoch ck = epoch (er_trainer r)"
  using r
  by (auto simp add: train_epoch_def Let_def save_checkpoint_def copyfile_def
      dict_for_saving_def split: sum.splits if_splits)

lemma train_epoch_live_state:
  assumes r: "train_epoch eng cfg io tr c = Inr r"
  shows "\<exists>tr1. (if \<not> use_rl c then Inr (train_xe eng cfg (train_batches io) tr)
                else train_scst eng cfg (train_dict_batches io) tr) = Inr tr1 \<and>
           scheduler (er_trainer r) = scheduler tr1 \<and>
           epoch (er_trainer r) = epoch tr \<and>
           (\<not> er_switch_to_rl r \<longrightarrow>
              model (er_trainer r) = model tr1 \<and> optim (er_trainer r) = optim tr1 \<and>
              rng (er_trainer r) = after_eval eng tr1)"
proof -
  from r obtain tr1 where pass:
    "(if \<not> use_rl c then Inr (train_xe eng cfg (train_batches io) tr)
      else train_scst eng cfg (train_dict_batches io) tr) = Inr tr1"
    by (auto simp add: train_epoch_def split: sum.splits)
  note fr = training_pass_frame [OF pass]
  from r pass fr show ?thesis
    by (auto simp add: train_epoch_def Let_def save_checkpoint_def copyfile_def
        load_checkpoint_frame split: if_splits)
qed


lemma train_epoch_other_files:
  assumes r: "train_epoch eng cfg io tr c = Inr r"
    and p: "p \<noteq> last_path cfg" "p \<noteq> best_path cfg"
  shows "files (er_trainer r) p = files tr p"
proof -
  from r obtain tr1 where pass:
    "(if \<not> use_rl c then Inr (train_xe eng cfg (train_batches io) tr)
      else train_scst eng cfg (train_dict_batches io) tr) = Inr tr1"
    by (auto simp add: train_epoch_def split: sum.splits)
  note fr = training_pass_frame [OF pass]
  from r pass fr p show ?thesis
    by (auto simp add: train_epoch_def Let_def save_checkpoint_def copyfile_def
        load_checkpoint_frame split: if_splits)
qed

text \<open>
  C5. Every completed pass of the loop body leaves in the "last" slot a checkpoint
  that holds the run state of the trainer as the pass leaves it: its weights, the state
  of its optimizer and of its scheduler, the four generator states and the epoch
  number of the pass, together with the validation loss and CIDEr of the pass and the
  control state the pass ended with. The write is unconditional. If the pass was marked
  best, the "best" slot then holds the same checkpoint, so the epoch fields of the two
  slots agree; otherwise the "best" slot is what it was before the pass. No other file
  is touched. What is persisted is what training left: the scheduler of the training
  pass and, unless the pass switched to reinforcement learning, its weights and
  optimizer and the generator states after evaluation. (A file here is an entry of the
  file map: the run directory is taken to exist, as \<^verbatim>\<open>torch.save\<close> needs it to.)
\<close>

theorem checkpoint_promotion:
  "train_epoch eng cfg io tr c = Inr r \<longrightarrow>
     (\<exists>ck. files (er_trainer r) (last_path cfg) = Some ck \<and>
           ck_epoch ck = epoch tr \<and>
           ck_epoch ck = epoch (er_trainer r) \<and>
           ck_state_dict ck = model (er_trainer r) \<and>
           ck_optimizer ck = optim (er_trainer r) \<and>
           ck_scheduler ck = scheduler (er_trainer r) \<and>
           ck_torch_rng_state ck = torch_rng (rng (er_trainer r)) \<and>
           ck_cuda_rng_state ck = cuda_rng (rng (er_trainer r)) \<and>
           ck_numpy_rng_state ck = numpy_rng (rng (er_trainer r)) \<and>
           ck_random_rng_state ck = random_rng (rng (er_trainer r)) \<and>
           ck_val_loss ck = io_val_loss io \<and>
           ck_val_cider ck = io_val_cider io \<and>
           ck_patience ck = patience (er_ctrl r) \<and>
           ck_best_val_cider ck = best_val_cider (er_ctrl r) \<and>
           ck_best_test_cider ck = best_test_cider (er_ctrl r) \<and>
           ck_use_rl ck = use_rl (er_ctrl r) \<and>
           files (er_trainer r) (best_path cfg) =
             (if er_best r then Some ck else files tr (best_path cfg)) \<and>
           (er_best r \<longrightarrow>
              map_option ck_epoch (files (er_trainer r) (best_path cfg)) =
              map_option ck_epoch (files (er_trainer r) (last_path cfg)))) \<and>
     (\<forall>p. p \<noteq> last_path cfg \<and> p \<noteq> best_path cfg \<longrightarrow> files (er_trainer r) p = files tr p) \<and>
     (\<exists>tr1. (if \<not> use_rl c then Inr (train_xe eng cfg (train_batches io) tr)
             else train_scst eng cfg (train_dict_batches io) tr) = Inr tr1 \<and>
        scheduler (er_trainer r) = scheduler tr1 \<and>
        (\<not> er_switch_to_rl r \<longrightarrow>
           model (er_trainer r) = model tr1 \<and> optim (er_trainer r) = optim tr1 \<and>
           rng (er_trainer r) = after_eval eng tr1))"
proof
  assume r: "train_epoch eng cfg io tr c = Inr r"
  from train_epoch_files [OF r] obtain ck where
    ck: "files (er_trainer r) (last_path cfg) = Some ck" "ck_epoch ck = epoch tr"
      "ck_val_loss ck = io_val_loss io"
      "ck_val_cider ck = io_val_cider io" "ck_patience ck = patience (er_ctrl r)"
      "ck_best_val_cider ck = best_val_cider (er_ctrl r)"
      "ck_best_test_cider ck = best_test_cider (er_ctrl r)"
      "ck_use_rl ck = use_rl (er_ctrl r)"
      "files (er_trainer r) (best_path cfg) =
         (if er_best r then Some ck else files tr (best_path cfg))"
    by blast
  from train_epoch_snapshot [OF r] ck(1) have snap:
    "ck_state_dict ck = model (er_trainer r)" "ck_optimizer ck = optim (er_trainer r)"
    "ck_scheduler ck = scheduler (er_trainer r)"
    "ck_torch_rng_state ck = torch_rng (rng (er_trainer r))"
    "ck_cuda_rng_state ck = cuda_rng (rng (er_trainer r))"
    "ck_numpy_rng_state ck = numpy_rng (rng (er_trainer r))"
    "ck_random_rng_state ck = random_rng (rng (er_trainer r))"
    "ck_epoch ck = epoch (er_trainer r)"
    by auto
  have slots: "\<exists>ck. files (er_trainer r) (last_path cfg) = Some ck \<and>
           ck_epoch ck = epoch tr \<and>
           ck_epoch ck = epoch (er_trainer r) \<and>
           ck_state_dict ck = model (er_trainer r) \<and>
           ck_optimizer ck = optim (er_trainer r) \<and>
           ck_scheduler ck = scheduler (er_trainer r) \<and>
           ck_torch_rng_state ck = torch_rng (rng (er_trainer r)) \<and>
           ck_cuda_rng_state ck = cuda_rng (rng (er_trainer r)) \<and>
           ck_numpy_rng_state ck = numpy_rng (rng (er_trainer r)) \<and>
           ck_random_rng_state ck = random_rng (rng (er_trainer r)) \<and>
           ck_val_loss ck = io_val_loss io \<and>
           ck_val_cider ck = io_val_cider io \<and>
           ck_patience ck = patience (er_ctrl r) \<and>
           ck_best_val_cider ck = best_val_cider (er_ctrl r) \<and>
           ck_best_test_cider ck = best_test_cider (er_ctrl r) \<and>
           ck_use_rl ck = use_rl (er_ctrl r) \<and>
           files (er_trainer r) (best_path cfg) =
             (if er_best r then Some ck else files tr (best_path cfg)) \<and>
           (er_best r \<longrightarrow>
              map_option ck_epoch (files (er_trainer r) (best_path cfg)) =
              map_option ck_epoch (files (er_trainer r) (last_path cfg)))"
    using ck snap by (intro exI [of _ ck]) simp
  have others: "\<forall>p. p \<noteq> last_path cfg \<and> p \<noteq> best_path cfg \<longrightarrow>
      files (er_trainer r) p = files tr p"
    using train_epoch_other_files [OF r] by blast
  from train_epoch_live_state [OF r] have live:
    "\<exists>tr1. (if \<not> use_rl c then Inr (train_xe eng cfg (train_batches io) tr)
             else train_scst eng cfg (train_dict_batches io) tr) = Inr tr1 \<and>
        scheduler (er_trainer r) = scheduler tr1 \<and>
        (\<not> er_switch_to_rl r \<longrightarrow>
           model (er_trainer r) = model tr1 \<and> optim (er_trainer r) = optim tr1 \<and>
           rng (er_trainer r) = after_eval eng tr1)"
    by blast
  from slots others live show
    "(\<exists>ck. files (er_trainer r) (last_path cfg) = Some ck \<and>
           ck_epoch ck = epoch tr \<and>
           ck_epoch ck = epoch (er_trainer r) \<and>
           ck_state_dict ck = model (er_trainer r) \<and>
           ck_optimizer ck = optim (er_trainer r) \<and>
           ck_scheduler ck = scheduler (er_trainer r) \<and>
           ck_torch_rng_state ck = torch_rng (rng (er_trainer r)) \<and>
           ck_cuda_rng_state ck = cuda_rng (rng (er_trainer r)) \<and>
           ck_numpy_rng_state ck = numpy_rng (rng (er_trainer r)) \<and>
           ck_random_rng_state ck = random_rng (rng (er_trainer r)) \<and>
           ck_val_loss ck = io_val_loss io \<and>
           ck_val_cider ck = io_val_cider io \<and>
           ck_patience ck = patience (er_ctrl r) \<and>
           ck_best_val_cider ck = best_val_cider (er_ctrl r) \<and>
           ck_best_test_cider ck = best_test_cider (er_ctrl r) \<and>
           ck_use_rl ck = use_rl (er_ctrl r) \<and>
           files (er_trainer r) (best_path cfg) =
             (if er_best r then Some ck else files tr (best_path cfg)) \<and>
           (er_best r \<longrightarrow>
              map_option ck_epoch (files (er_trainer r) (best_path cfg)) =
              map_option ck_epoch (files (er_trainer r) (last_path cfg)))) \<and>
     (\<forall>p. p \<noteq> last_path cfg \<and> p \<noteq> best_path cfg \<longrightarrow> files (er_trainer r) p = files tr p) \<and>
     (\<exists>tr1. (if \<not> use_rl c then Inr (train_xe eng cfg (train_batches io) tr)
             else train_scst eng cfg (train_dict_batches io) tr) = Inr tr1 \<and>
        scheduler (er_trainer r) = scheduler tr1 \<and>
        (\<not> er_switch_to_rl r \<longrightarrow>
           model (er_trainer r) = model tr1 \<and> optim (er_trainer r) = optim tr1 \<and>
           rng (er_trainer r) = after_eval eng tr1))"
    by (intro conjI)
qed

lemma example_first_epoch:
  "\<exists>r. train_epoch example_engine example_config (epoch_with (1 / 10))
          (example_trainer\<lparr>epoch := 7\<rparr>) fresh_ctrl = Inr r"
  by (rule train_epoch_supervised_total) (simp add: fresh_ctrl_def)

theorem checkpoint_promotion_witness:
  "\<exists>r ck. train_epoch example_engine example_config (epoch_with (1 / 10))
            (example_trainer\<lparr>epoch := 7\<rparr>) fresh_ctrl = Inr r \<and> er_best r \<and>
          files (er_trainer r) (last_path example_config) = Some ck \<and>
          files (er_trainer r) (best_path example_config) = Some ck \<and>
          ck_epoch ck = 7 \<and> ck_val_cider ck = 1 / 10 \<and> ck_patience ck = 0 \<and>
          ck_state_dict ck = example_weights \<and>
          ck_optimizer ck = optim example_trainer \<and>
          ck_scheduler ck = \<lparr>last_epoch = 0, base_lr = 1\<rparr> \<and>
          ck_torch_rng_state ck = [] \<and> ck_cuda_rng_state ck = [] \<and>
          ck_numpy_rng_state ck = [] \<and> ck_random_rng_state ck = []"
proof -
  let ?tr = "example_trainer\<lparr>epoch := 7\<rparr>"
  from example_first_epoch obtain r where
    r: "train_epoch example_engine example_config (epoch_with (1 / 10)) ?tr fresh_ctrl = Inr r"
    by blast
  have b: "er_best r" "patience (er_ctrl r) = 0" "\<not> er_switch_to_rl r"
    using train_epoch_ctrl [OF r] by (simp_all add: epoch_with_def fresh_ctrl_def)
  have pass: "(if \<not> use_rl fresh_ctrl
        then Inr (train_xe example_engine example_config
                    (train_batches (epoch_with (1 / 10))) ?tr)
        else train_scst example_engine example_config
               (train_dict_batches (epoch_with (1 / 10))) ?tr) = Inr ?tr"
    by (simp add: fresh_ctrl_def epoch_with_def)
  have st: "model ?tr = example_weights" "scheduler ?tr = \<lparr>last_epoch = 0, base_lr = 1\<rparr>"
    "after_eval example_engine ?tr = example_rng" "optim ?tr = optim example_trainer"
    by (simp_all add: example_trainer_def init_trainer_def example_engine_def)
  from r b st checkpoint_promotion [of example_engine example_config "epoch_with (1 / 10)"
      ?tr fresh_ctrl r]
  show ?thesis unfolding pass by (auto simp add: epoch_with_def example_rng_def)
qed

section \<open>Sample ids of the metric evaluation\<close>









end
